theory Spec2Isabelle
  imports Main "HOL-Library.Signed_Division"
begin

section \<open>Shift-aware due-date scheduler of the TPM system (app.py)\<close>

text \<open>
  The scheduler functions of \<^verbatim>\<open>src/app.py\<close> are embedded as HOL functions.
  Every Python exception that a path of the source can raise is a value of \<open>error\<close>;
  a function that can raise returns \<open>error + 'a\<close> with \<open>Inl\<close> for the exception.
  The reads of the wall clock (\<^verbatim>\<open>datetime.now()\<close>), the rows of the table
  \<^verbatim>\<open>shift_config\<close> and the library parser \<^verbatim>\<open>datetime.strptime\<close> are
  explicit arguments.
\<close>

subsection \<open>Exceptions\<close>

datatype error = KeyError | ValueError | AttributeError | IndexError | OverflowError

definition bind_err :: "error + 'a \<Rightarrow> ('a \<Rightarrow> error + 'b) \<Rightarrow> error + 'b" where
  "bind_err r f = (case r of Inl e \<Rightarrow> Inl e | Inr x \<Rightarrow> f x)"

subsection \<open>datetime, time and timedelta\<close>

text \<open>
  A \<^verbatim>\<open>datetime.time\<close> has the fields hour, minute, second and microsecond; Python
  compares two of them field by field, in that order.
\<close>

record pytime =
  t_hour :: int
  t_minute :: int
  t_second :: int
  t_micro :: int

definition time_less :: "pytime \<Rightarrow> pytime \<Rightarrow> bool" where
  "time_less a b \<longleftrightarrow>
     t_hour a < t_hour b \<or> (t_hour a = t_hour b \<and>
       (t_minute a < t_minute b \<or> (t_minute a = t_minute b \<and>
         (t_second a < t_second b \<or> (t_second a = t_second b \<and> t_micro a < t_micro b)))))"

definition time_le :: "pytime \<Rightarrow> pytime \<Rightarrow> bool" where
  "time_le a b \<longleftrightarrow> \<not> time_less b a"

text \<open>
  A \<^verbatim>\<open>datetime.datetime\<close> is a calendar date and a time of day. The date is kept
  as its proleptic Gregorian ordinal (\<^verbatim>\<open>date.toordinal()\<close>: day 1 is 0001-01-01, a
  Monday), which is what Python itself computes with for \<^verbatim>\<open>weekday()\<close> and for
  adding a \<^verbatim>\<open>timedelta\<close>. Two dates are equal iff their ordinals are.
\<close>

record datetime =
  dt_ord :: int
  dt_hour :: int
  dt_minute :: int
  dt_second :: int
  dt_micro :: int

definition MAXORD :: int where
  "MAXORD = 3652059"  \<comment> \<open>\<^verbatim>\<open>date(9999, 12, 31).toordinal()\<close>\<close>

definition valid_dt :: "datetime \<Rightarrow> bool" where
  "valid_dt d \<longleftrightarrow> 1 \<le> dt_ord d \<and> dt_ord d \<le> MAXORD \<and>
     0 \<le> dt_hour d \<and> dt_hour d < 24 \<and> 0 \<le> dt_minute d \<and> dt_minute d < 60 \<and>
     0 \<le> dt_second d \<and> dt_second d < 60 \<and> 0 \<le> dt_micro d \<and> dt_micro d < 1000000"

definition time_of :: "datetime \<Rightarrow> pytime" where
  "time_of d = \<lparr>t_hour = dt_hour d, t_minute = dt_minute d,
               t_second = dt_second d, t_micro = dt_micro d\<rparr>"

definition date_of :: "datetime \<Rightarrow> int" where
  "date_of d = dt_ord d"

definition weekday :: "datetime \<Rightarrow> int" where
  "weekday d = (dt_ord d + 6) mod 7"

definition dt_less :: "datetime \<Rightarrow> datetime \<Rightarrow> bool" where
  "dt_less a b \<longleftrightarrow>
     dt_ord a < dt_ord b \<or> (dt_ord a = dt_ord b \<and> time_less (time_of a) (time_of b))"

definition dt_le :: "datetime \<Rightarrow> datetime \<Rightarrow> bool" where
  "dt_le a b \<longleftrightarrow> \<not> dt_less b a"

text \<open>
  \<^verbatim>\<open>dt + timedelta(days=n)\<close>: the time of day is kept, the date moves by \<open>n\<close> days, and
  Python raises OverflowError when the date leaves 0001-01-01 .. 9999-12-31.
\<close>

definition add_days :: "datetime \<Rightarrow> int \<Rightarrow> error + datetime" where
  "add_days d n =
     (if 1 \<le> dt_ord d + n \<and> dt_ord d + n \<le> MAXORD
      then Inr (d\<lparr>dt_ord := dt_ord d + n\<rparr>) else Inl OverflowError)"

text \<open>\<^verbatim>\<open>dt.replace(hour=t.hour, minute=t.minute, second=0, microsecond=0)\<close>\<close>

definition replace_hm :: "datetime \<Rightarrow> pytime \<Rightarrow> datetime" where
  "replace_hm d t = d\<lparr>dt_hour := t_hour t, dt_minute := t_minute t,
                       dt_second := 0, dt_micro := 0\<rparr>"

text \<open>
  \<^verbatim>\<open>(a - b).days\<close>: the difference of two datetimes is a timedelta normalised so
  that its seconds and microseconds are not negative; its \<^verbatim>\<open>days\<close> field is therefore
  the floor of the difference in days.
\<close>

definition secs_of :: "datetime \<Rightarrow> int" where
  "secs_of d = dt_hour d * 3600 + dt_minute d * 60 + dt_second d"

definition diff_micros :: "datetime \<Rightarrow> datetime \<Rightarrow> int" where
  "diff_micros a b =
     ((dt_ord a - dt_ord b) * 86400 + (secs_of a - secs_of b)) * 1000000
       + (dt_micro a - dt_micro b)"

definition diff_days :: "datetime \<Rightarrow> datetime \<Rightarrow> int" where
  "diff_days a b = diff_micros a b div 86400000000"

subsection \<open>Python list helpers\<close>

text \<open>\<^verbatim>\<open>min(xs)\<close> and \<^verbatim>\<open>max(xs)\<close> raise ValueError on an empty list.\<close>

definition py_min :: "int list \<Rightarrow> error + int" where
  "py_min xs = (case xs of [] \<Rightarrow> Inl ValueError | y # ys \<Rightarrow> Inr (fold min ys y))"

definition py_max :: "int list \<Rightarrow> error + int" where
  "py_max xs = (case xs of [] \<Rightarrow> Inl ValueError | y # ys \<Rightarrow> Inr (fold max ys y))"

subsection \<open>OccurrencePeriodMatcher: \<^verbatim>\<open>is_same_shift_occurrence\<close>, \<^verbatim>\<open>is_same_shift_week\<close>\<close>

text \<open>
  The nested \<^verbatim>\<open>get_shift_date_for_time(dt)\<close> (lines 445-465). Python's \<open>None\<close> is
  \<open>None\<close>; the subtraction of one day can raise OverflowError.
\<close>

definition get_shift_date_for_time ::
  "int list \<Rightarrow> pytime \<Rightarrow> pytime \<Rightarrow> datetime \<Rightarrow> error + int option" where
  "get_shift_date_for_time shift_days start_time end_time dt =
     (let day_idx = weekday dt in
      if day_idx \<notin> set shift_days then Inr None
      else if time_less end_time start_time then
        (if time_le start_time (time_of dt) then Inr (Some (date_of dt))
         else bind_err (add_days dt (- 1)) (\<lambda>p. Inr (Some (date_of p))))
      else
        (if time_le start_time (time_of dt) \<and> time_less (time_of dt) end_time
         then Inr (Some (date_of dt)) else Inr None))"

definition is_same_shift_occurrence ::
  "datetime \<Rightarrow> datetime \<Rightarrow> int list \<Rightarrow> pytime \<Rightarrow> pytime \<Rightarrow> error + bool" where
  "is_same_shift_occurrence completion_time current_time shift_days start_time end_time =
     bind_err (get_shift_date_for_time shift_days start_time end_time completion_time)
       (\<lambda>completion_shift_date.
     bind_err (get_shift_date_for_time shift_days start_time end_time current_time)
       (\<lambda>current_shift_date.
     Inr (completion_shift_date \<noteq> None \<and> current_shift_date \<noteq> None \<and>
          completion_shift_date = current_shift_date)))"

text \<open>The nested \<^verbatim>\<open>get_shift_week_start(dt)\<close> (lines 477-491).\<close>

definition get_shift_week_start ::
  "int list \<Rightarrow> pytime \<Rightarrow> pytime \<Rightarrow> datetime \<Rightarrow> error + int" where
  "get_shift_week_start shift_days start_time end_time dt =
     bind_err (py_min shift_days) (\<lambda>first_shift_day.
     let days_since_first = (weekday dt - first_shift_day) mod 7 in
     bind_err (add_days dt (- days_since_first)) (\<lambda>week_start.
     if weekday dt = first_shift_day \<and> time_less end_time start_time \<and>
        time_less (time_of dt) start_time
     then bind_err (add_days week_start (- 7)) (\<lambda>week_start'. Inr (date_of week_start'))
     else Inr (date_of week_start)))"

definition is_same_shift_week ::
  "datetime \<Rightarrow> datetime \<Rightarrow> int list \<Rightarrow> pytime \<Rightarrow> pytime \<Rightarrow> error + bool" where
  "is_same_shift_week completion_time current_time shift_days start_time end_time =
     bind_err (get_shift_week_start shift_days start_time end_time completion_time)
       (\<lambda>completion_week_start.
     bind_err (get_shift_week_start shift_days start_time end_time current_time)
       (\<lambda>current_week_start.
     Inr (completion_week_start = current_week_start)))"

subsection \<open>Strings\<close>

text \<open>\<^verbatim>\<open>s.split(c)\<close> for a one-character separator: never empty, \<^verbatim>\<open>''.split(',') == ['']\<close>.\<close>

fun py_split :: "char \<Rightarrow> string \<Rightarrow> string list" where
  "py_split c [] = [[]]"
| "py_split c (x # xs) =
     (if x = c then [] # py_split c xs
      else (case py_split c xs of [] \<Rightarrow> [[x]] | p # ps \<Rightarrow> (x # p) # ps))"

text \<open>\<^verbatim>\<open>sub in s\<close> on strings: \<open>sub\<close> occurs in \<open>s\<close> as a contiguous block.\<close>

fun str_contains :: "string \<Rightarrow> string \<Rightarrow> bool" where
  "str_contains sub [] = (sub = [])"
| "str_contains sub (c # cs) = (take (length sub) (c # cs) = sub \<or> str_contains sub cs)"

text \<open>Truthiness of an optional string: \<open>None\<close> and \<open>''\<close> are false.\<close>

definition truthy :: "string option \<Rightarrow> bool" where
  "truthy s = (case s of None \<Rightarrow> False | Some x \<Rightarrow> x \<noteq> [])"

subsection \<open>The table \<^verbatim>\<open>shift_config\<close> and \<^verbatim>\<open>WEEK_IDX\<close>\<close>

text \<open>
  One row of \<^verbatim>\<open>shift_config\<close>. The columns \<^verbatim>\<open>shift_name\<close>, \<^verbatim>\<open>start_time\<close> and
  \<^verbatim>\<open>end_time\<close> are \<^verbatim>\<open>TEXT NOT NULL\<close>; \<^verbatim>\<open>active_days\<close> is \<^verbatim>\<open>TEXT\<close> and may be NULL.
\<close>

record shift_row =
  sc_shift_name :: string
  sc_start_time :: string
  sc_end_time :: string
  sc_active_days :: "string option"
  sc_display_order :: int
  sc_active :: int

definition WEEK_IDX :: "string \<rightharpoonup> int" where
  "WEEK_IDX = map_of [(''Mon'', 0), (''Tue'', 1), (''Wed'', 2), (''Thu'', 3),
                      (''Fri'', 4), (''Sat'', 5), (''Sun'', 6)]"

text \<open>\<^verbatim>\<open>[WEEK_IDX[d] for d in ds]\<close>: KeyError at the first name that is not a key.\<close>

fun week_indices :: "string list \<Rightarrow> error + int list" where
  "week_indices [] = Inr []"
| "week_indices (d # ds) =
     (case WEEK_IDX d of None \<Rightarrow> Inl KeyError
      | Some i \<Rightarrow> bind_err (week_indices ds) (\<lambda>is. Inr (i # is)))"

text \<open>
  \<^verbatim>\<open>[WEEK_IDX[d] for d in shift_row['active_days'].split(',')]\<close>; \<open>None\<close> has no
  \<^verbatim>\<open>split\<close>.
\<close>

definition row_shift_days :: "shift_row \<Rightarrow> error + int list" where
  "row_shift_days row =
     (case sc_active_days row of None \<Rightarrow> Inl AttributeError
      | Some s \<Rightarrow> week_indices (py_split CHR '','' s))"

text \<open>
  \<^verbatim>\<open>SELECT * FROM shift_config WHERE shift_name = ? AND active = 1\<close>, \<^verbatim>\<open>fetchone()\<close>,
  run only when \<^verbatim>\<open>assigned_shift\<close> is truthy.
\<close>

definition fetch_shift :: "shift_row list \<Rightarrow> string option \<Rightarrow> shift_row option" where
  "fetch_shift db assigned_shift =
     (case assigned_shift of None \<Rightarrow> None
      | Some n \<Rightarrow> if n = [] then None
                  else find (\<lambda>r. sc_shift_name r = n \<and> sc_active r = 1) db)"

subsection \<open>\<^verbatim>\<open>datetime.strptime\<close>\<close>

text \<open>
  The library parser is an argument \<open>P\<close> of every function that parses: \<open>P s fmt\<close> is
  \<open>Some d\<close> when \<^verbatim>\<open>datetime.strptime(s, fmt)\<close> returns \<open>d\<close> and \<open>None\<close> when it raises
  ValueError.
\<close>

type_synonym parser = "string \<Rightarrow> string \<Rightarrow> datetime option"

text \<open>\<^verbatim>\<open>datetime.strptime(s, '%H:%M').time()\<close>\<close>

definition parse_hm :: "parser \<Rightarrow> string \<Rightarrow> error + pytime" where
  "parse_hm P s = (case P s ''%H:%M'' of None \<Rightarrow> Inl ValueError | Some d \<Rightarrow> Inr (time_of d))"

text \<open>
  The two nested \<^verbatim>\<open>try\<close> blocks that parse \<^verbatim>\<open>last_completed\<close>, with seconds first
  and without seconds second; \<open>None\<close> when both raise.
\<close>

definition parse_completed :: "parser \<Rightarrow> string \<Rightarrow> datetime option" where
  "parse_completed P s =
     (case P s ''%Y-%m-%d %H:%M:%S'' of Some d \<Rightarrow> Some d
      | None \<Rightarrow> P s ''%Y-%m-%d %H:%M'')"

definition midnight :: pytime where
  "midnight = \<lparr>t_hour = 0, t_minute = 0, t_second = 0, t_micro = 0\<rparr>"

subsection \<open>DueDateCalculator: \<^verbatim>\<open>calculate_next_due\<close>\<close>

text \<open>Lines 264-272: the reference time.\<close>

definition reference_time_of :: "parser \<Rightarrow> datetime \<Rightarrow> string option \<Rightarrow> datetime" where
  "reference_time_of P now last_completed =
     (if truthy last_completed
      then (case parse_completed P (the last_completed) of Some d \<Rightarrow> d | None \<Rightarrow> now)
      else now)"

text \<open>
  Lines 284-293: the locals \<open>(shift_days, first_day, last_day, start_time, end_time)\<close>.
  Without a row the shift is every weekday with both times at
  \<^verbatim>\<open>strptime('00:00', '%H:%M').time()\<close>, which is midnight.
\<close>

definition resolve_shift ::
  "parser \<Rightarrow> shift_row option \<Rightarrow> error + (int list \<times> int \<times> int \<times> pytime \<times> pytime)" where
  "resolve_shift P shift_row =
     (case shift_row of
        Some row \<Rightarrow>
          bind_err (row_shift_days row) (\<lambda>shift_days.
          bind_err (py_min shift_days) (\<lambda>first_day.
          bind_err (py_max shift_days) (\<lambda>last_day.
          bind_err (parse_hm P (sc_start_time row)) (\<lambda>start_time.
          bind_err (parse_hm P (sc_end_time row)) (\<lambda>end_time.
          Inr (shift_days, first_day, last_day, start_time, end_time))))))
      | None \<Rightarrow> Inr ([0, 1, 2, 3, 4, 5, 6], 0, 6, midnight, midnight))"

text \<open>
  The loop \<^verbatim>\<open>for i in range(1, 8)\<close> of the two daily branches, over the offsets still
  to try: \<open>Inr (Some c)\<close> is \<^verbatim>\<open>return c\<close> from inside the loop, \<open>Inr None\<close> is the loop
  running to its end.
\<close>

fun scan_days :: "datetime \<Rightarrow> int list \<Rightarrow> pytime \<Rightarrow> int list \<Rightarrow> error + datetime option" where
  "scan_days reference_time shift_days t [] = Inr None"
| "scan_days reference_time shift_days t (i # rest) =
     (let d_idx = (weekday reference_time + i) mod 7 in
      if d_idx \<in> set shift_days then
        bind_err (add_days reference_time i) (\<lambda>moved.
        let candidate = replace_hm moved t in
        if dt_less reference_time candidate then Inr (Some candidate)
        else scan_days reference_time shift_days t rest)
      else scan_days reference_time shift_days t rest)"

text \<open>\<^verbatim>\<open>(reference_time + timedelta(days=n)).replace(hour=.., minute=.., second=0, microsecond=0)\<close>\<close>

definition shifted_to :: "datetime \<Rightarrow> int \<Rightarrow> pytime \<Rightarrow> error + datetime" where
  "shifted_to reference_time n t =
     bind_err (add_days reference_time n) (\<lambda>moved. Inr (replace_hm moved t))"

text \<open>\<^verbatim>\<open>timedelta(days=n)\<close> raises OverflowError beyond 999999999 days.\<close>

definition timedelta_days :: "int \<Rightarrow> error + int" where
  "timedelta_days n = (if \<bar>n\<bar> \<le> 999999999 then Inr n else Inl OverflowError)"

text \<open>\<^verbatim>\<open>interval_days or 1\<close>\<close>

definition or_one :: "int option \<Rightarrow> int" where
  "or_one interval_days = (case interval_days of None \<Rightarrow> 1 | Some n \<Rightarrow> if n = 0 then 1 else n)"

text \<open>Lines 295-380: the branches on \<^verbatim>\<open>interval_type\<close>, with the locals as arguments.\<close>

definition next_due_body ::
  "parser \<Rightarrow> datetime \<Rightarrow> string option \<Rightarrow> int option \<Rightarrow> string option \<Rightarrow> datetime \<Rightarrow>
   int list \<Rightarrow> int \<Rightarrow> int \<Rightarrow> pytime \<Rightarrow> pytime \<Rightarrow> error + datetime" where
  "next_due_body P now last_completed interval_days interval_type reference_time
                 shift_days first_day last_day start_time end_time =
     (let ref_day_idx = weekday reference_time in
      if interval_type = Some ''start_shift_daily'' then
        bind_err (scan_days reference_time shift_days start_time [1, 2, 3, 4, 5, 6, 7])
          (\<lambda>found. case found of
             Some candidate \<Rightarrow> Inr candidate
           | None \<Rightarrow>
               (let days_until_first = (first_day - ref_day_idx) mod 7;
                    days_until_first = (if days_until_first = 0 then 7 else days_until_first)
                in shifted_to reference_time days_until_first start_time))
      else if interval_type = Some ''start_shift_weekly'' then
        (let days_until_first = (first_day - ref_day_idx) mod 7 in
         bind_err (shifted_to reference_time days_until_first start_time) (\<lambda>candidate.
         if dt_le candidate reference_time then add_days candidate 7 else Inr candidate))
      else if interval_type = Some ''end_shift_daily'' then
        bind_err (scan_days reference_time shift_days end_time [1, 2, 3, 4, 5, 6, 7])
          (\<lambda>found. case found of
             Some candidate \<Rightarrow> Inr candidate
           | None \<Rightarrow>
               (case shift_days of [] \<Rightarrow> Inl IndexError
                | d0 # _ \<Rightarrow>
                   (let days_until_first = (d0 - ref_day_idx) mod 7;
                        days_until_first = (if days_until_first = 0 then 7 else days_until_first)
                    in shifted_to reference_time days_until_first end_time)))
      else if interval_type = Some ''end_shift_weekly'' then
        (let days_until_last = (last_day - ref_day_idx) mod 7 in
         bind_err (shifted_to reference_time days_until_last end_time) (\<lambda>candidate.
         if dt_le candidate reference_time then add_days candidate 7 else Inr candidate))
      else if truthy last_completed then
        (let last_completed_dt =
               (case parse_completed P (the last_completed) of Some d \<Rightarrow> d | None \<Rightarrow> now)
         in bind_err (timedelta_days (or_one interval_days)) (\<lambda>n. add_days last_completed_dt n))
      else Inr now)"

definition calculate_next_due ::
  "parser \<Rightarrow> datetime \<Rightarrow> shift_row list \<Rightarrow> string option \<Rightarrow> int option \<Rightarrow> string option \<Rightarrow>
   string option \<Rightarrow> error + datetime" where
  "calculate_next_due P now db last_completed interval_days interval_type assigned_shift =
     (let reference_time = reference_time_of P now last_completed;
          shift_row = fetch_shift db assigned_shift
      in bind_err (resolve_shift P shift_row)
           (\<lambda>(shift_days, first_day, last_day, start_time, end_time).
              next_due_body P now last_completed interval_days interval_type reference_time
                            shift_days first_day last_day start_time end_time))"

subsection \<open>StatusResolver: \<^verbatim>\<open>get_task_status\<close>\<close>

text \<open>
  \<^verbatim>\<open>is_completed_in_current_shift_period\<close> (lines 410-440). It reads the clock itself;
  that reading is the argument \<open>now\<close> here.
\<close>

definition is_completed_in_current_shift_period ::
  "parser \<Rightarrow> datetime \<Rightarrow> shift_row list \<Rightarrow> datetime \<Rightarrow> string \<Rightarrow> string option \<Rightarrow> error + bool" where
  "is_completed_in_current_shift_period P now db completion_time interval_type assigned_shift =
     (case fetch_shift db assigned_shift of
        None \<Rightarrow> Inr (date_of completion_time = date_of now)
      | Some row \<Rightarrow>
          bind_err (row_shift_days row) (\<lambda>shift_days.
          bind_err (parse_hm P (sc_start_time row)) (\<lambda>start_time.
          bind_err (parse_hm P (sc_end_time row)) (\<lambda>end_time.
          if str_contains ''daily'' interval_type then
            is_same_shift_occurrence completion_time now shift_days start_time end_time
          else if str_contains ''weekly'' interval_type then
            is_same_shift_week completion_time now shift_days start_time end_time
          else Inr False))))"

text \<open>
  Lines 387-400 of \<^verbatim>\<open>get_task_status\<close>: whether the completion check returns
  \<^verbatim>\<open>"completed"\<close>. \<open>now2\<close> is the clock as read inside
  \<^verbatim>\<open>is_completed_in_current_shift_period\<close>.
\<close>

definition completion_override ::
  "parser \<Rightarrow> datetime \<Rightarrow> shift_row list \<Rightarrow> string option \<Rightarrow> string option \<Rightarrow> string option \<Rightarrow>
   error + bool" where
  "completion_override P now2 db last_completed interval_type assigned_shift =
     (if truthy last_completed \<and> truthy interval_type \<and> truthy assigned_shift then
        (case parse_completed P (the last_completed) of
           None \<Rightarrow> Inr False
         | Some last_completed_dt \<Rightarrow>
             is_completed_in_current_shift_period P now2 db last_completed_dt
               (the interval_type) assigned_shift)
      else Inr False)"

text \<open>Lines 402-408: the standard status logic.\<close>

definition standard_status :: "datetime \<Rightarrow> datetime \<Rightarrow> string" where
  "standard_status now next_due =
     (if dt_less next_due now then ''overdue''
      else if diff_days next_due now < 1 then ''due''
      else ''upcoming'')"

text \<open>\<open>now\<close> is the clock as read on entry, \<open>now2\<close> as read by the completion check.\<close>

definition get_task_status ::
  "parser \<Rightarrow> datetime \<Rightarrow> datetime \<Rightarrow> shift_row list \<Rightarrow> datetime \<Rightarrow> string option \<Rightarrow>
   string option \<Rightarrow> string option \<Rightarrow> error + string" where
  "get_task_status P now now2 db next_due last_completed interval_type assigned_shift =
     bind_err (completion_override P now2 db last_completed interval_type assigned_shift)
       (\<lambda>completed. if completed then Inr ''completed''
                     else Inr (standard_status now next_due))"

subsection \<open>ShiftCalendar: \<^verbatim>\<open>get_active_shift\<close>\<close>

text \<open>
  The JSON answer of the endpoint, without its echo of the clock (\<^verbatim>\<open>timestamp\<close>,
  \<^verbatim>\<open>current_time\<close>); \<open>r_error\<close> is the exception the handler caught.
\<close>

record response =
  r_status :: string
  r_shift :: string
  r_note :: "string option"
  r_error :: "error option"

text \<open>\<^verbatim>\<open>now.strftime('%a')\<close> in the C locale.\<close>

definition day_abbr :: "datetime \<Rightarrow> string" where
  "day_abbr d = [''Mon'', ''Tue'', ''Wed'', ''Thu'', ''Fri'', ''Sat'', ''Sun''] ! nat (weekday d)"

text \<open>
  \<^verbatim>\<open>int(parts[0]) * 60 + int(parts[1])\<close> with \<^verbatim>\<open>parts = s.split(':')\<close>, inside the
  \<^verbatim>\<open>try\<close>: \<open>None\<close> when \<^verbatim>\<open>parts[1]\<close> does not exist or \<^verbatim>\<open>int\<close> raises. The builtin
  \<^verbatim>\<open>int\<close> on strings is the argument \<open>py_int\<close>.
\<close>

definition minutes_of :: "(string \<Rightarrow> int option) \<Rightarrow> string \<Rightarrow> int option" where
  "minutes_of py_int s =
     (case py_split CHR '':'' s of
        a # b # _ \<Rightarrow>
          (case py_int a of None \<Rightarrow> None
           | Some h \<Rightarrow> (case py_int b of None \<Rightarrow> None | Some m \<Rightarrow> Some (h * 60 + m)))
      | _ \<Rightarrow> None)"

text \<open>
  The loop over the fetched rows (lines 1024-1048): \<open>Inr (Some name)\<close> at \<^verbatim>\<open>break\<close>,
  \<open>Inr None\<close> when the loop ends with \<^verbatim>\<open>active_shift\<close> still \<open>None\<close>, \<open>Inl\<close> for an
  exception outside the inner \<^verbatim>\<open>try\<close>.
\<close>

fun find_active_shift ::
  "(string \<Rightarrow> int option) \<Rightarrow> string \<Rightarrow> int \<Rightarrow> shift_row list \<Rightarrow> error + string option" where
  "find_active_shift py_int current_day current_minutes [] = Inr None"
| "find_active_shift py_int current_day current_minutes (shift # rest) =
     (case sc_active_days shift of
        None \<Rightarrow> Inl AttributeError
      | Some days \<Rightarrow>
          if current_day \<notin> set (py_split CHR '','' days)
          then find_active_shift py_int current_day current_minutes rest
          else
            (case minutes_of py_int (sc_start_time shift) of
               None \<Rightarrow> find_active_shift py_int current_day current_minutes rest
             | Some start_minutes \<Rightarrow>
                (case minutes_of py_int (sc_end_time shift) of
                   None \<Rightarrow> find_active_shift py_int current_day current_minutes rest
                 | Some end_minutes \<Rightarrow>
                    if end_minutes > start_minutes then
                      (if start_minutes \<le> current_minutes \<and> current_minutes < end_minutes
                       then Inr (Some (sc_shift_name shift))
                       else find_active_shift py_int current_day current_minutes rest)
                    else
                      (if current_minutes \<ge> start_minutes \<or> current_minutes < end_minutes
                       then Inr (Some (sc_shift_name shift))
                       else find_active_shift py_int current_day current_minutes rest))))"

text \<open>
  \<^verbatim>\<open>SELECT ... FROM shift_config WHERE active = 1 ORDER BY display_order\<close>; rows with
  the same \<^verbatim>\<open>display_order\<close> keep their table order.
\<close>

definition active_shifts :: "shift_row list \<Rightarrow> shift_row list" where
  "active_shifts db = sort_key sc_display_order (filter (\<lambda>r. sc_active r = 1) db)"

definition get_active_shift ::
  "(string \<Rightarrow> int option) \<Rightarrow> datetime \<Rightarrow> shift_row list \<Rightarrow> response" where
  "get_active_shift py_int now db =
     (let current_minutes = dt_hour now * 60 + dt_minute now;
          current_day = day_abbr now;
          shifts = active_shifts db
      in if shifts = [] then
           \<lparr>r_status = ''success'', r_shift = ''A'',
            r_note = Some ''No shifts configured'', r_error = None\<rparr>
         else
           (case find_active_shift py_int current_day current_minutes shifts of
              Inl e \<Rightarrow> \<lparr>r_status = ''error'', r_shift = ''A'', r_note = None, r_error = Some e\<rparr>
            | Inr active_shift \<Rightarrow>
                if truthy active_shift then
                  \<lparr>r_status = ''success'', r_shift = the active_shift,
                   r_note = None, r_error = None\<rparr>
                else
                  \<lparr>r_status = ''success'', r_shift = ''A'',
                   r_note = Some ''No shift matched current time'', r_error = None\<rparr>))"

section \<open>The specification's own definitions\<close>

text \<open>
  The definitions of this section follow the wording of the specification, not the
  source; the theorems below compare them with the functions embedded above.
\<close>

text \<open>
  \<open>shiftDateOf\<close> of section 4.2: undefined when the weekday of the instant is not
  active; for an overnight shift the date of the instant when its time of day is not
  before \<open>startTime\<close> and the day before otherwise; for a same-day shift the date of
  the instant when \<open>startTime \<le> timeOfDay < endTime\<close> and undefined otherwise.
\<close>

definition shiftDateOf_spec :: "int list \<Rightarrow> pytime \<Rightarrow> pytime \<Rightarrow> datetime \<Rightarrow> int option" where
  "shiftDateOf_spec activeWeekdays startTime endTime instant =
     (if weekday instant \<notin> set activeWeekdays then None
      else if time_less endTime startTime then
        (if time_le startTime (time_of instant) then Some (date_of instant)
         else Some (date_of instant - 1))
      else if time_le startTime (time_of instant) \<and> time_less (time_of instant) endTime
        then Some (date_of instant)
      else None)"

text \<open>
  An occurrence (glossary): the window of the shift on one active calendar day, from
  \<open>startTime\<close> to \<open>endTime\<close>, running into the next day when the shift is overnight.
  The instant lies in some occurrence window when it is at or after \<open>startTime\<close> on an
  active day (and before \<open>endTime\<close> for a same-day shift), or before \<open>endTime\<close> on
  the day after an active day of an overnight shift.
\<close>

definition in_occurrence_window :: "int list \<Rightarrow> pytime \<Rightarrow> pytime \<Rightarrow> datetime \<Rightarrow> bool" where
  "in_occurrence_window activeWeekdays startTime endTime instant \<longleftrightarrow>
     (if time_less endTime startTime then
        (weekday instant \<in> set activeWeekdays \<and> time_le startTime (time_of instant)) \<or>
        ((weekday instant - 1) mod 7 \<in> set activeWeekdays \<and>
         time_less (time_of instant) endTime)
      else weekday instant \<in> set activeWeekdays \<and> time_le startTime (time_of instant) \<and>
           time_less (time_of instant) endTime)"

text \<open>\<open>weekStartOf\<close> of section 4.2, with \<open>firstActiveDay = min(activeWeekdays)\<close>.\<close>

definition weekStartOf_spec :: "int list \<Rightarrow> pytime \<Rightarrow> pytime \<Rightarrow> datetime \<Rightarrow> int" where
  "weekStartOf_spec activeWeekdays startTime endTime instant =
     (let firstActiveDay = Min (set activeWeekdays);
          daysSinceFirst = (weekday instant - firstActiveDay) mod 7;
          weekStart = date_of instant - daysSinceFirst
      in if weekday instant = firstActiveDay \<and> time_less endTime startTime \<and>
            time_less (time_of instant) startTime
         then weekStart - 7 else weekStart)"

text \<open>
  A start or end time is a time of day with minute precision (section 3): a string
  \<open>HH:MM\<close> whose two parts are integers with \<open>0 \<le> HH < 24\<close> and \<open>0 \<le> MM < 60\<close>, read
  as minutes since midnight. Any other string is malformed.
\<close>

definition time_of_day_minutes :: "(string \<Rightarrow> int option) \<Rightarrow> string \<Rightarrow> int option" where
  "time_of_day_minutes py_int s =
     (case py_split CHR '':'' s of
        [a, b] \<Rightarrow>
          (case py_int a of None \<Rightarrow> None
           | Some h \<Rightarrow>
              (case py_int b of None \<Rightarrow> None
               | Some m \<Rightarrow> if 0 \<le> h \<and> h < 24 \<and> 0 \<le> m \<and> m < 60
                            then Some (h * 60 + m) else None))
      | _ \<Rightarrow> None)"

text \<open>
  When a shift is the active one at a given minute, in the words of section 4.1 with
  overnight as section 3 and the glossary define it, \<open>endTime < startTime\<close>: the
  current weekday is active, neither time is malformed (a malformed shift is skipped),
  and the minute satisfies \<open>nowMinutes \<ge> start\<close> or \<open>nowMinutes < end\<close> for an
  overnight shift and \<open>start \<le> nowMinutes < end\<close> otherwise.
\<close>

definition shift_covers_spec :: "(string \<Rightarrow> int option) \<Rightarrow> string \<Rightarrow> int \<Rightarrow> shift_row \<Rightarrow> bool" where
  "shift_covers_spec py_int current_day current_minutes row \<longleftrightarrow>
     (case sc_active_days row of None \<Rightarrow> False
      | Some days \<Rightarrow> current_day \<in> set (py_split CHR '','' days)) \<and>
     (case time_of_day_minutes py_int (sc_start_time row) of None \<Rightarrow> False
      | Some start_minutes \<Rightarrow>
         (case time_of_day_minutes py_int (sc_end_time row) of None \<Rightarrow> False
          | Some end_minutes \<Rightarrow>
             if end_minutes < start_minutes
             then current_minutes \<ge> start_minutes \<or> current_minutes < end_minutes
             else start_minutes \<le> current_minutes \<and> current_minutes < end_minutes))"

section \<open>Predicates used in the theorems\<close>

text \<open>The four interval types that \<^verbatim>\<open>calculate_next_due\<close> handles before its legacy branch.\<close>

definition non_legacy :: "string option \<Rightarrow> bool" where
  "non_legacy interval_type \<longleftrightarrow>
     interval_type = Some ''start_shift_daily'' \<or> interval_type = Some ''start_shift_weekly'' \<or>
     interval_type = Some ''end_shift_daily'' \<or> interval_type = Some ''end_shift_weekly''"

text \<open>
  A row that \<^verbatim>\<open>calculate_next_due\<close> can read without an exception: \<^verbatim>\<open>active_days\<close> is
  not NULL, each of its comma-separated parts is a key of \<^verbatim>\<open>WEEK_IDX\<close>, and both times
  parse with \<^verbatim>\<open>'%H:%M'\<close>.
\<close>

definition row_well_formed :: "parser \<Rightarrow> shift_row \<Rightarrow> bool" where
  "row_well_formed P row \<longleftrightarrow>
     (case sc_active_days row of None \<Rightarrow> False
      | Some s \<Rightarrow> list_all (\<lambda>d. WEEK_IDX d \<noteq> None) (py_split CHR '','' s)) \<and>
     P (sc_start_time row) ''%H:%M'' \<noteq> None \<and> P (sc_end_time row) ''%H:%M'' \<noteq> None"

text \<open>The row that \<^verbatim>\<open>assigned_shift\<close> selects, if there is one, is well formed.\<close>

definition config_ok :: "parser \<Rightarrow> shift_row list \<Rightarrow> string option \<Rightarrow> bool" where
  "config_ok P db assigned_shift \<longleftrightarrow>
     (case fetch_shift db assigned_shift of None \<Rightarrow> True | Some row \<Rightarrow> row_well_formed P row)"

text \<open>The date is at least 14 days from both ends of the range of \<^verbatim>\<open>datetime\<close>.\<close>

definition two_weeks_inside :: "datetime \<Rightarrow> bool" where
  "two_weeks_inside d \<longleftrightarrow> 14 \<le> dt_ord d \<and> dt_ord d + 14 \<le> MAXORD"

text \<open>Adding \<^verbatim>\<open>interval_days or 1\<close> days keeps the date in the range of \<^verbatim>\<open>datetime\<close>.\<close>

definition legacy_ok :: "datetime \<Rightarrow> int option \<Rightarrow> bool" where
  "legacy_ok reference_time interval_days \<longleftrightarrow>
     1 \<le> dt_ord reference_time + or_one interval_days \<and>
     dt_ord reference_time + or_one interval_days \<le> MAXORD"

text \<open>
  An instant as the number of microseconds since the start of day 0; for valid datetimes
  "\<open>a\<close> is \<open>n\<close> microseconds after \<open>b\<close>" is \<open>to_micros a = to_micros b + n\<close>.
\<close>

definition to_micros :: "datetime \<Rightarrow> int" where
  "to_micros d = (dt_ord d * 86400 + secs_of d) * 1000000 + dt_micro d"

text \<open>
  When a row is the answer of \<^verbatim>\<open>get_active_shift\<close>, as the source decides it: the name
  of the current day is among its active days, both times split at the colon into two
  parts that \<^verbatim>\<open>int\<close> accepts, and the current minute lies in \<open>[start, end)\<close> when
  \<open>start < end\<close>, or is at or after \<open>start\<close> or before \<open>end\<close> when \<open>end \<le> start\<close>.
  It agrees with \<open>shift_covers_spec\<close> on rows whose two times are times of day and
  differ.
\<close>

definition shift_covers :: "(string \<Rightarrow> int option) \<Rightarrow> string \<Rightarrow> int \<Rightarrow> shift_row \<Rightarrow> bool" where
  "shift_covers py_int current_day current_minutes row \<longleftrightarrow>
     (case sc_active_days row of None \<Rightarrow> False
      | Some days \<Rightarrow> current_day \<in> set (py_split CHR '','' days)) \<and>
     (case minutes_of py_int (sc_start_time row) of None \<Rightarrow> False
      | Some start_minutes \<Rightarrow>
         (case minutes_of py_int (sc_end_time row) of None \<Rightarrow> False
          | Some end_minutes \<Rightarrow>
             if start_minutes < end_minutes
             then start_minutes \<le> current_minutes \<and> current_minutes < end_minutes
             else current_minutes \<ge> start_minutes \<or> current_minutes < end_minutes))"

section \<open>Concrete times, dates and tables used in the examples\<close>

definition hm :: "int \<Rightarrow> int \<Rightarrow> pytime" where
  "hm h m = \<lparr>t_hour = h, t_minute = m, t_second = 0, t_micro = 0\<rparr>"

text \<open>
  \<open>at n h m\<close> is the day with ordinal \<open>n\<close> at \<open>h:m:00\<close>. The days used below:
  738886 is Monday 2024-01-01, 738890 Friday 2024-01-05, 738891 Saturday 2024-01-06,
  738893 Monday 2024-01-08, 738894 Tuesday 2024-01-09, 738895 Wednesday 2024-01-10,
  738896 Thursday 2024-01-11, 738897 Friday 2024-01-12 and 738900 Monday 2024-01-15.
\<close>

definition at :: "int \<Rightarrow> int \<Rightarrow> int \<Rightarrow> datetime" where
  "at n h m = \<lparr>dt_ord = n, dt_hour = h, dt_minute = m, dt_second = 0, dt_micro = 0\<rparr>"

text \<open>The rows that \<^verbatim>\<open>init_db\<close> inserts (lines 191-196); \<^verbatim>\<open>active\<close> defaults to 1.\<close>

definition SHIFT_DEFS :: "shift_row list" where
  "SHIFT_DEFS =
     [\<lparr>sc_shift_name = ''A'', sc_start_time = ''04:30'', sc_end_time = ''15:30'',
       sc_active_days = Some ''Mon,Tue,Wed,Thu'', sc_display_order = 1, sc_active = 1\<rparr>,
      \<lparr>sc_shift_name = ''B'', sc_start_time = ''16:30'', sc_end_time = ''03:30'',
       sc_active_days = Some ''Mon,Tue,Wed,Thu'', sc_display_order = 2, sc_active = 1\<rparr>,
      \<lparr>sc_shift_name = ''C'', sc_start_time = ''05:00'', sc_end_time = ''17:00'',
       sc_active_days = Some ''Fri,Sat,Sun'', sc_display_order = 3, sc_active = 1\<rparr>,
      \<lparr>sc_shift_name = ''D'', sc_start_time = ''17:00'', sc_end_time = ''05:00'',
       sc_active_days = Some ''Fri,Sat,Sun'', sc_display_order = 4, sc_active = 1\<rparr>]"

text \<open>A parser given by a finite table of (string, format) pairs; \<open>None\<close> elsewhere.\<close>

definition table_parser :: "((string \<times> string) \<times> datetime) list \<Rightarrow> parser" where
  "table_parser tbl s fmt = map_of tbl (s, fmt)"

text \<open>
  What \<^verbatim>\<open>datetime.strptime\<close> returns on the strings of the examples (the date of a
  parsed \<^verbatim>\<open>'%H:%M'\<close> is 1900-01-01, ordinal 693596).
\<close>

definition example_parser :: parser where
  "example_parser = table_parser
     [((''04:30'', ''%H:%M''), at 693596 4 30), ((''15:30'', ''%H:%M''), at 693596 15 30),
      ((''16:30'', ''%H:%M''), at 693596 16 30), ((''03:30'', ''%H:%M''), at 693596 3 30),
      ((''05:00'', ''%H:%M''), at 693596 5 0), ((''17:00'', ''%H:%M''), at 693596 17 0),
      ((''2024-01-05 23:00:00'', ''%Y-%m-%d %H:%M:%S''), at 738890 23 0),
      ((''2024-01-11 23:00:00'', ''%Y-%m-%d %H:%M:%S''), at 738896 23 0),
      ((''2024-01-09 10:00'', ''%Y-%m-%d %H:%M''), at 738894 10 0)]"

text \<open>What \<^verbatim>\<open>int\<close> returns on the two-digit strings of the examples.\<close>

definition example_int :: "string \<Rightarrow> int option" where
  "example_int = map_of [(''00'', 0), (''03'', 3), (''04'', 4), (''05'', 5), (''08'', 8),
                         (''15'', 15), (''16'', 16), (''17'', 17), (''24'', 24),
                         (''30'', 30)]"

text \<open>
  Two rows that the table can hold (the import stores \<^verbatim>\<open>''\<close> when a shift comes without
  \<^verbatim>\<open>active_days\<close>, and no time string is validated): one without any day name, one
  whose end time \<^verbatim>\<open>'24:00'\<close> \<^verbatim>\<open>strptime\<close> rejects.
\<close>

definition no_days_row :: shift_row where
  "no_days_row = \<lparr>sc_shift_name = ''X'', sc_start_time = ''04:30'', sc_end_time = ''15:30'',
                   sc_active_days = Some '''', sc_display_order = 5, sc_active = 1\<rparr>"

definition bad_time_row :: shift_row where
  "bad_time_row = \<lparr>sc_shift_name = ''Y'', sc_start_time = ''04:30'', sc_end_time = ''24:00'',
                    sc_active_days = Some ''Mon'', sc_display_order = 6, sc_active = 1\<rparr>"

text \<open>
  Two more rows that the table can hold: \<^verbatim>\<open>shift_name\<close> is only \<^verbatim>\<open>NOT NULL\<close>, so it
  can be the empty string, and \<^verbatim>\<open>active_days\<close> can be NULL.
\<close>

definition unnamed_row :: shift_row where
  "unnamed_row = \<lparr>sc_shift_name = '''', sc_start_time = ''08:00'', sc_end_time = ''17:00'',
                   sc_active_days = Some ''Mon'', sc_display_order = 1, sc_active = 1\<rparr>"

definition null_days_row :: shift_row where
  "null_days_row = \<lparr>sc_shift_name = ''N'', sc_start_time = ''08:00'', sc_end_time = ''17:00'',
                     sc_active_days = None, sc_display_order = 0, sc_active = 1\<rparr>"

section \<open>General lemmas\<close>

lemmas dt_defs = hm_def at_def weekday_def time_of_def date_of_def time_less_def time_le_def
  dt_less_def dt_le_def add_days_def MAXORD_def bind_err_def replace_hm_def

lemma bind_err_Inr:
  "bind_err r f = Inr y \<longleftrightarrow> (\<exists>x. r = Inr x \<and> f x = Inr y)"
  by (cases r) (simp_all add: bind_err_def)

lemma py_min_Min:
  assumes "xs \<noteq> []"
  shows "py_min xs = Inr (Min (set xs))"
proof (cases xs)
  case Nil
  then show ?thesis using assms by simp
next
  case (Cons y ys)
  have "fold min ys y = Min (set (y # ys))"
    by (rule Min.set_eq_fold [symmetric])
  with Cons show ?thesis by (simp add: py_min_def)
qed

lemma add_days_back:
  assumes "14 \<le> dt_ord dt" "dt_ord dt \<le> MAXORD" "0 \<le> k" "k < 7"
  shows "add_days dt (- k) = Inr (dt\<lparr>dt_ord := dt_ord dt - k\<rparr>)"
    and "add_days (dt\<lparr>dt_ord := dt_ord dt - k\<rparr>) (- 7) =
           Inr (dt\<lparr>dt_ord := dt_ord dt - k - 7\<rparr>)"
  using assms by (simp_all add: add_days_def)

lemma add_days_back7:
  assumes "14 \<le> dt_ord dt" "dt_ord dt \<le> MAXORD"
  shows "add_days dt (- 7) = Inr (dt\<lparr>dt_ord := dt_ord dt - 7\<rparr>)"
  using assms by (simp add: add_days_def)

section \<open>OccurrencePeriodMatcher\<close>

lemma get_shift_date_for_time_spec:
  assumes "2 \<le> dt_ord dt" "dt_ord dt \<le> MAXORD"
  shows "get_shift_date_for_time ds st et dt = Inr (shiftDateOf_spec ds st et dt)"
  using assms
  by (simp add: get_shift_date_for_time_def shiftDateOf_spec_def add_days_def bind_err_def
      date_of_def Let_def)

lemma get_shift_week_start_spec:
  assumes "ds \<noteq> []" "14 \<le> dt_ord dt" "dt_ord dt \<le> MAXORD"
  shows "get_shift_week_start ds st et dt = Inr (weekStartOf_spec ds st et dt)"
  using assms
  by (simp add: get_shift_week_start_def weekStartOf_spec_def py_min_Min add_days_back
      add_days_back7 bind_err_def date_of_def Let_def)

text \<open>
  Claim C3. For the overnight shift 17:00-05:00 active on Friday only, a completion on
  Friday at 23:00 and a reference on Saturday at 04:00 should be the same occurrence, and
  a reference on Saturday at 06:00 should not. The source answers \<open>False\<close> for both:
  \<^verbatim>\<open>get_shift_date_for_time\<close> tests the calendar weekday of the instant first, Saturday
  is not an active day, and so the hours after midnight of Friday's shift have no shift
  date.
\<close>

theorem overnight_tail_after_midnight_rejected:
  "weekday (at 738890 23 0) = 4 \<and> weekday (at 738891 4 0) = 5 \<and>
   get_shift_date_for_time [4] (hm 17 0) (hm 5 0) (at 738890 23 0) = Inr (Some 738890) \<and>
   get_shift_date_for_time [4] (hm 17 0) (hm 5 0) (at 738891 4 0) = Inr None \<and>
   is_same_shift_occurrence (at 738890 23 0) (at 738891 4 0) [4] (hm 17 0) (hm 5 0) = Inr False \<and>
   is_same_shift_occurrence (at 738890 23 0) (at 738891 6 0) [4] (hm 17 0) (hm 5 0) = Inr False"
  by (simp add: is_same_shift_occurrence_def get_shift_date_for_time_def dt_defs)

text \<open>
  Claim C4. A completion that falls outside every occurrence window of the shift should
  never match. The source lets it match: for the overnight shift 16:30-03:30 on Monday
  to Thursday, Tuesday 10:00 lies in no window (Monday's occurrence ended at 03:30,
  Tuesday's starts at 16:30), yet \<^verbatim>\<open>is_same_shift_occurrence\<close> returns true for it and
  Tuesday 11:00. The overnight \<^verbatim>\<open>else\<close> branch of \<^verbatim>\<open>get_shift_date_for_time\<close>, commented
  "Before end time, shift date is previous date", does not test \<^verbatim>\<open>dt.time() < end_time\<close>
  and so gives every time of day before \<open>startTime\<close> the previous date.
\<close>

theorem gap_completion_matches:
  "\<not> in_occurrence_window [0, 1, 2, 3] (hm 16 30) (hm 3 30) (at 738894 10 0) \<and>
   is_same_shift_occurrence (at 738894 10 0) (at 738894 11 0) [0, 1, 2, 3] (hm 16 30) (hm 3 30)
     = Inr True"
  by (simp add: in_occurrence_window_def is_same_shift_occurrence_def
      get_shift_date_for_time_def dt_defs)

text \<open>
  What the source computes, slips included: \<^verbatim>\<open>is_same_shift_occurrence\<close> is true iff
  both shift dates, as \<open>shiftDateOf\<close> of section 4.2 gives them, are defined and equal.
\<close>

lemma is_same_shift_occurrence_anchor_dates:
  assumes "2 \<le> dt_ord c" "dt_ord c \<le> MAXORD" "2 \<le> dt_ord r" "dt_ord r \<le> MAXORD"
  shows "is_same_shift_occurrence c r ds st et =
           Inr (shiftDateOf_spec ds st et c \<noteq> None \<and> shiftDateOf_spec ds st et r \<noteq> None \<and>
                shiftDateOf_spec ds st et c = shiftDateOf_spec ds st et r) \<and>
         (shiftDateOf_spec ds st et c = None \<longrightarrow>
            is_same_shift_occurrence c r ds st et = Inr False)"
  using assms
  by (simp add: is_same_shift_occurrence_def get_shift_date_for_time_spec bind_err_def)

text \<open>
  Claim C5. With a non-empty list of active days and instants at least two weeks after
  0001-01-01, the week start computed by \<^verbatim>\<open>get_shift_week_start\<close> is the date minus
  \<open>(weekday - min(activeWeekdays)) mod 7\<close> days, minus a further 7 days exactly when the
  weekday is the first active weekday, the shift is overnight and the time of day is
  before \<open>startTime\<close>; \<^verbatim>\<open>is_same_shift_week\<close> is true iff the two week starts are
  equal. For the shift 16:30-03:30 on Mondays, Monday 2024-01-08 at 02:00 has the
  previous Monday 2024-01-01 as its week start, and 17:00 of the same day has 2024-01-08.
\<close>

theorem same_shift_week_week_start:
  assumes "ds \<noteq> []" "14 \<le> dt_ord c" "dt_ord c \<le> MAXORD" "14 \<le> dt_ord r" "dt_ord r \<le> MAXORD"
  shows "get_shift_week_start ds st et c = Inr (weekStartOf_spec ds st et c) \<and>
         is_same_shift_week c r ds st et =
           Inr (weekStartOf_spec ds st et c = weekStartOf_spec ds st et r) \<and>
         get_shift_week_start [0] (hm 16 30) (hm 3 30) (at 738893 2 0) = Inr 738886 \<and>
         get_shift_week_start [0] (hm 16 30) (hm 3 30) (at 738893 17 0) = Inr 738893"
proof -
  have "get_shift_week_start [0] (hm 16 30) (hm 3 30) (at 738893 2 0) = Inr 738886"
    by (simp add: get_shift_week_start_def py_min_def dt_defs)
  moreover have "get_shift_week_start [0] (hm 16 30) (hm 3 30) (at 738893 17 0) = Inr 738893"
    by (simp add: get_shift_week_start_def py_min_def dt_defs)
  ultimately show ?thesis
    using assms by (simp add: is_same_shift_week_def get_shift_week_start_spec bind_err_def)
qed

theorem same_shift_week_week_start_witness:
  "weekStartOf_spec [0] (hm 16 30) (hm 3 30) (at 738893 2 0) = 738886 \<and>
   weekStartOf_spec [0] (hm 16 30) (hm 3 30) (at 738893 17 0) = 738893 \<and>
   is_same_shift_week (at 738893 2 0) (at 738893 17 0) [0] (hm 16 30) (hm 3 30) = Inr False"
  using same_shift_week_week_start
          [of "[0]" "at 738893 2 0" "at 738893 17 0" "hm 16 30" "hm 3 30"]
  by (simp add: weekStartOf_spec_def dt_defs)

section \<open>DueDateCalculator\<close>

subsection \<open>The branches of \<^verbatim>\<open>next_due_body\<close>\<close>

lemma next_due_body_start_daily:
  "next_due_body P now lc idays (Some ''start_shift_daily'') ref ds first_day last_day st et =
     bind_err (scan_days ref ds st [1, 2, 3, 4, 5, 6, 7])
       (\<lambda>found. case found of Some candidate \<Rightarrow> Inr candidate
          | None \<Rightarrow> shifted_to ref
              (if (first_day - weekday ref) mod 7 = 0 then 7 else (first_day - weekday ref) mod 7)
              st)"
  by (simp add: next_due_body_def Let_def del: scan_days.simps)

lemma next_due_body_start_weekly:
  "next_due_body P now lc idays (Some ''start_shift_weekly'') ref ds first_day last_day st et =
     bind_err (shifted_to ref ((first_day - weekday ref) mod 7) st)
       (\<lambda>candidate. if dt_le candidate ref then add_days candidate 7 else Inr candidate)"
  by (simp add: next_due_body_def Let_def del: scan_days.simps)

lemma next_due_body_end_daily:
  "next_due_body P now lc idays (Some ''end_shift_daily'') ref ds first_day last_day st et =
     bind_err (scan_days ref ds et [1, 2, 3, 4, 5, 6, 7])
       (\<lambda>found. case found of Some candidate \<Rightarrow> Inr candidate
          | None \<Rightarrow> (case ds of [] \<Rightarrow> Inl IndexError
              | d0 # _ \<Rightarrow> shifted_to ref
                  (if (d0 - weekday ref) mod 7 = 0 then 7 else (d0 - weekday ref) mod 7) et))"
  unfolding next_due_body_def Let_def by simp

lemma next_due_body_end_weekly:
  "next_due_body P now lc idays (Some ''end_shift_weekly'') ref ds first_day last_day st et =
     bind_err (shifted_to ref ((last_day - weekday ref) mod 7) et)
       (\<lambda>candidate. if dt_le candidate ref then add_days candidate 7 else Inr candidate)"
  by (simp add: next_due_body_def Let_def del: scan_days.simps)

subsection \<open>The result is after the reference time\<close>

lemma scan_days_after:
  "scan_days ref ds t offs = Inr (Some c) \<Longrightarrow> dt_less ref c"
proof (induction offs)
  case Nil
  then show ?case by simp
next
  case (Cons i offs)
  then show ?case
    by (auto simp: Let_def bind_err_Inr split: if_splits)
qed

lemma shifted_to_ord:
  assumes "shifted_to ref n t = Inr d"
  shows "dt_ord d = dt_ord ref + n"
  using assms
  by (auto simp: shifted_to_def bind_err_Inr add_days_def replace_hm_def split: if_splits)

lemma shifted_to_after:
  assumes "shifted_to ref n t = Inr d" "1 \<le> n"
  shows "dt_less ref d"
  using shifted_to_ord [OF assms(1)] assms(2) by (simp add: dt_less_def)

lemma fallback_after:
  assumes "shifted_to ref (if (x::int) mod 7 = 0 then 7 else x mod 7) t = Inr d"
  shows "dt_less ref d"
proof -
  have "1 \<le> (if x mod 7 = 0 then 7 else x mod 7)" by presburger
  with assms show ?thesis by (rule shifted_to_after)
qed

lemma weekly_after:
  assumes "bind_err (shifted_to ref ((x::int) mod 7) t)
             (\<lambda>candidate. if dt_le candidate ref then add_days candidate 7 else Inr candidate)
           = Inr d"
  shows "dt_less ref d"
proof -
  from assms obtain c where c: "shifted_to ref (x mod 7) t = Inr c"
    and d: "(if dt_le c ref then add_days c 7 else Inr c) = Inr d"
    by (auto simp: bind_err_Inr)
  have n: "0 \<le> x mod 7" by simp
  show ?thesis
  proof (cases "dt_le c ref")
    case True
    with d have "dt_ord d = dt_ord c + 7"
      by (auto simp: add_days_def split: if_splits)
    with shifted_to_ord [OF c] n have "dt_ord ref < dt_ord d"
      by linarith
    then show ?thesis
      by (simp add: dt_less_def)
  next
    case False
    with d show ?thesis by (simp add: dt_le_def)
  qed
qed

lemma daily_after:
  assumes "bind_err (scan_days ref ds t offs)
             (\<lambda>found. case found of Some candidate \<Rightarrow> Inr candidate | None \<Rightarrow> fb) = Inr d"
    and "fb = Inr d \<Longrightarrow> dt_less ref d"
  shows "dt_less ref d"
proof -
  from assms(1) obtain found where f: "scan_days ref ds t offs = Inr found"
    and r: "(case found of Some candidate \<Rightarrow> Inr candidate | None \<Rightarrow> fb) = Inr d"
    by (auto simp: bind_err_Inr)
  show ?thesis
  proof (cases found)
    case None
    with r assms(2) show ?thesis by simp
  next
    case (Some c)
    with r f scan_days_after [of ref ds t offs d] show ?thesis by simp
  qed
qed

lemma next_due_body_after:
  assumes "next_due_body P now lc idays itype ref ds first_day last_day st et = Inr d"
    and "non_legacy itype"
  shows "dt_less ref d"
proof -
  from assms(2) show ?thesis
    unfolding non_legacy_def
  proof (elim disjE)
    assume sd: "itype = Some ''start_shift_daily''"
    from assms(1) show ?thesis
      unfolding sd next_due_body_start_daily
      by (rule daily_after) (rule fallback_after)
  next
    assume sw: "itype = Some ''start_shift_weekly''"
    from assms(1) show ?thesis
      unfolding sw next_due_body_start_weekly by (rule weekly_after)
  next
    assume ed: "itype = Some ''end_shift_daily''"
    from assms(1) show ?thesis
      unfolding ed next_due_body_end_daily
    proof (rule daily_after)
      assume "(case ds of [] \<Rightarrow> Inl IndexError
               | d0 # x \<Rightarrow> shifted_to ref
                   (if (d0 - weekday ref) mod 7 = 0 then 7 else (d0 - weekday ref) mod 7) et)
              = Inr d"
      then show "dt_less ref d"
        by (cases ds) (auto dest: fallback_after)
    qed
  next
    assume ew: "itype = Some ''end_shift_weekly''"
    from assms(1) show ?thesis
      unfolding ew next_due_body_end_weekly by (rule weekly_after)
  qed
qed

lemma calculate_next_due_after:
  assumes "calculate_next_due P now db lc idays itype shift = Inr d" "non_legacy itype"
  shows "dt_less (reference_time_of P now lc) d"
  using assms
  by (auto simp: calculate_next_due_def Let_def bind_err_Inr dest: next_due_body_after)

subsection \<open>The result exists\<close>

lemma py_split_not_Nil: "py_split c s \<noteq> []"
  by (induction s) (auto split: list.splits)

lemma week_indices_total:
  "list_all (\<lambda>d. WEEK_IDX d \<noteq> None) ds \<Longrightarrow>
     \<exists>is. week_indices ds = Inr is \<and> length is = length ds"
  by (induction ds) (auto simp: bind_err_def)

lemma row_shift_days_total:
  assumes "row_well_formed P row"
  shows "\<exists>ds. row_shift_days row = Inr ds \<and> ds \<noteq> []"
proof -
  from assms obtain s where s: "sc_active_days row = Some s"
    and ok: "list_all (\<lambda>d. WEEK_IDX d \<noteq> None) (py_split CHR '','' s)"
    by (auto simp: row_well_formed_def split: option.splits)
  from week_indices_total [OF ok] obtain ds
    where ds: "week_indices (py_split CHR '','' s) = Inr ds"
      and len: "length ds = length (py_split CHR '','' s)" by blast
  from len py_split_not_Nil [of "CHR '',''" s] have "ds \<noteq> []" by auto
  with s ds show ?thesis by (simp add: row_shift_days_def)
qed

lemma parse_hm_total:
  "P s ''%H:%M'' \<noteq> None \<Longrightarrow> \<exists>t. parse_hm P s = Inr t"
  by (auto simp: parse_hm_def)

lemma py_min_total: "ds \<noteq> [] \<Longrightarrow> \<exists>m. py_min ds = Inr m"
  by (cases ds) (simp_all add: py_min_def)

lemma py_max_total: "ds \<noteq> [] \<Longrightarrow> \<exists>m. py_max ds = Inr m"
  by (cases ds) (simp_all add: py_max_def)

lemma resolve_shift_total:
  assumes "config_ok P db assigned_shift"
  shows "\<exists>ds f l st et. resolve_shift P (fetch_shift db assigned_shift) = Inr (ds, f, l, st, et)
           \<and> ds \<noteq> []"
proof (cases "fetch_shift db assigned_shift")
  case None
  then show ?thesis by (simp add: resolve_shift_def)
next
  case (Some row)
  with assms have wf: "row_well_formed P row" by (simp add: config_ok_def)
  from row_shift_days_total [OF wf] obtain ds where ds: "row_shift_days row = Inr ds" "ds \<noteq> []"
    by blast
  from py_min_total [OF ds(2)] obtain f where f: "py_min ds = Inr f" by blast
  from py_max_total [OF ds(2)] obtain l where l: "py_max ds = Inr l" by blast
  from wf parse_hm_total obtain st where st: "parse_hm P (sc_start_time row) = Inr st"
    by (auto simp: row_well_formed_def)
  from wf parse_hm_total obtain et where et: "parse_hm P (sc_end_time row) = Inr et"
    by (auto simp: row_well_formed_def)
  from Some ds f l st et show ?thesis
    by (simp add: resolve_shift_def bind_err_def)
qed

lemma scan_days_total:
  assumes "1 \<le> dt_ord ref" "dt_ord ref + 7 \<le> MAXORD" "\<forall>i\<in>set offs. 0 \<le> i \<and> i \<le> 7"
  shows "\<exists>r. scan_days ref ds t offs = Inr r"
  using assms
  by (induction offs) (auto simp: Let_def bind_err_def add_days_def)

lemma shifted_to_total:
  assumes "1 \<le> dt_ord ref + n" "dt_ord ref + n \<le> MAXORD"
  shows "\<exists>d. shifted_to ref n t = Inr d \<and> dt_ord d = dt_ord ref + n"
  using assms by (simp add: shifted_to_def add_days_def bind_err_def replace_hm_def)

lemma weekly_total:
  assumes "two_weeks_inside ref" "0 \<le> n" "n < 7"
  shows "\<exists>d. bind_err (shifted_to ref n t)
           (\<lambda>candidate. if dt_le candidate ref then add_days candidate 7 else Inr candidate) = Inr d"
proof -
  from assms have "1 \<le> dt_ord ref + n" "dt_ord ref + n \<le> MAXORD"
    by (simp_all add: two_weeks_inside_def)
  from shifted_to_total [OF this] obtain c where c: "shifted_to ref n t = Inr c"
    "dt_ord c = dt_ord ref + n" by blast
  with assms have "\<exists>d. add_days c 7 = Inr d"
    by (simp add: add_days_def two_weeks_inside_def)
  with c show ?thesis by (auto simp: bind_err_def)
qed

lemma fallback_total:
  assumes "two_weeks_inside ref"
  shows "\<exists>d. shifted_to ref (if (x::int) mod 7 = 0 then 7 else x mod 7) t = Inr d"
proof -
  have "0 \<le> x mod 7" "x mod 7 < 7" by simp_all
  with assms have "1 \<le> dt_ord ref + (if x mod 7 = 0 then 7 else x mod 7)"
    "dt_ord ref + (if x mod 7 = 0 then 7 else x mod 7) \<le> MAXORD"
    by (auto simp: two_weeks_inside_def)
  from shifted_to_total [OF this] show ?thesis by blast
qed

lemma next_due_body_total:
  assumes "two_weeks_inside ref" "ds \<noteq> []" "non_legacy itype"
  shows "\<exists>d. next_due_body P now lc idays itype ref ds first_day last_day st et = Inr d"
proof -
  have m: "\<And>x::int. 0 \<le> x mod 7" "\<And>x::int. x mod 7 < 7" by simp_all
  from assms(1) have r: "1 \<le> dt_ord ref" "dt_ord ref + 7 \<le> MAXORD"
    by (simp_all add: two_weeks_inside_def)
  have scan: "\<exists>r. scan_days ref ds t [1, 2, 3, 4, 5, 6, 7] = Inr r" for t
    by (rule scan_days_total [OF r]) simp
  from assms(2) obtain d0 rest where ds: "ds = d0 # rest" by (cases ds) auto
  from assms(3) show ?thesis
    unfolding non_legacy_def
  proof (elim disjE)
    assume sd: "itype = Some ''start_shift_daily''"
    from scan [of st] obtain r where "scan_days ref ds st [1, 2, 3, 4, 5, 6, 7] = Inr r" by blast
    with fallback_total [OF assms(1), of "first_day - weekday ref" st] show ?thesis
      unfolding sd next_due_body_start_daily
      by (cases r) (simp_all add: bind_err_def del: scan_days.simps)
  next
    assume sw: "itype = Some ''start_shift_weekly''"
    from weekly_total [OF assms(1) m, of "first_day - weekday ref" st] show ?thesis
      unfolding sw next_due_body_start_weekly .
  next
    assume ed: "itype = Some ''end_shift_daily''"
    from scan [of et] obtain r where "scan_days ref ds et [1, 2, 3, 4, 5, 6, 7] = Inr r" by blast
    with ds fallback_total [OF assms(1), of "d0 - weekday ref" et] show ?thesis
      unfolding ed next_due_body_end_daily
      by (cases r) (simp_all add: bind_err_def del: scan_days.simps)
  next
    assume ew: "itype = Some ''end_shift_weekly''"
    from weekly_total [OF assms(1) m, of "last_day - weekday ref" et] show ?thesis
      unfolding ew next_due_body_end_weekly .
  qed
qed

lemma calculate_next_due_total:
  assumes "config_ok P db shift" "two_weeks_inside (reference_time_of P now lc)" "non_legacy itype"
  shows "\<exists>d. calculate_next_due P now db lc idays itype shift = Inr d"
proof -
  from resolve_shift_total [OF assms(1)] obtain ds f l st et
    where r: "resolve_shift P (fetch_shift db shift) = Inr (ds, f, l, st, et)" "ds \<noteq> []"
    by blast
  from next_due_body_total [OF assms(2) r(2) assms(3)] r(1) show ?thesis
    by (simp add: calculate_next_due_def Let_def bind_err_def)
qed


subsection \<open>Evaluation on the default shifts\<close>

lemma fetch_D:
  "fetch_shift SHIFT_DEFS (Some ''D'') = Some (SHIFT_DEFS ! 3)"
  by (simp add: fetch_shift_def SHIFT_DEFS_def)

lemma row_days_D: "row_shift_days (SHIFT_DEFS ! 3) = Inr [4, 5, 6]"
  by (simp add: SHIFT_DEFS_def row_shift_days_def WEEK_IDX_def bind_err_def)

lemma resolve_D:
  "resolve_shift example_parser (Some (SHIFT_DEFS ! 3)) = Inr ([4, 5, 6], 4, 6, hm 17 0, hm 5 0)"
  unfolding resolve_shift_def option.case row_days_D
  by (simp add: SHIFT_DEFS_def example_parser_def table_parser_def parse_hm_def py_min_def
      py_max_def bind_err_def time_of_def at_def hm_def)

lemma ref_example:
  "reference_time_of example_parser now (Some ''2024-01-05 23:00:00'') = at 738890 23 0"
  by (simp add: reference_time_of_def truthy_def parse_completed_def example_parser_def
      table_parser_def)

lemma wf_D: "config_ok example_parser SHIFT_DEFS (Some ''D'')"
  unfolding config_ok_def fetch_D
  by (simp add: SHIFT_DEFS_def row_well_formed_def example_parser_def table_parser_def
      WEEK_IDX_def)

text \<open>
  Claim C1. For every call of \<^verbatim>\<open>calculate_next_due\<close> with one of the four non-legacy
  interval types, whatever the shift assignment (also none, and also when the daily scan
  falls through to its fallback), a returned instant is strictly greater than the
  reference time, which is \<^verbatim>\<open>last_completed\<close> when it is present and parses and
  \<open>now\<close> otherwise. The call does return an instant when the assigned row is well formed
  and the reference time is two weeks inside the range of \<^verbatim>\<open>datetime\<close>.
\<close>

theorem next_due_after_reference:
  assumes "non_legacy interval_type"
  shows "(\<forall>d. calculate_next_due P now db last_completed interval_days interval_type
                 assigned_shift = Inr d \<longrightarrow>
              dt_less (reference_time_of P now last_completed) d) \<and>
         (config_ok P db assigned_shift \<and>
          two_weeks_inside (reference_time_of P now last_completed) \<longrightarrow>
            (\<exists>d. calculate_next_due P now db last_completed interval_days interval_type
                    assigned_shift = Inr d))"
  using assms calculate_next_due_after calculate_next_due_total by blast

theorem next_due_after_reference_witness:
  "calculate_next_due example_parser (at 738895 8 0) SHIFT_DEFS
     (Some ''2024-01-05 23:00:00'') (Some 1) (Some ''end_shift_daily'') (Some ''D'')
     = Inr (at 738891 5 0) \<and>
   dt_less (at 738890 23 0) (at 738891 5 0)"
proof -
  have nl: "non_legacy (Some ''end_shift_daily'')"
    unfolding non_legacy_def by simp
  have ev: "calculate_next_due example_parser (at 738895 8 0) SHIFT_DEFS
     (Some ''2024-01-05 23:00:00'') (Some 1) (Some ''end_shift_daily'') (Some ''D'')
     = Inr (at 738891 5 0)"
    unfolding calculate_next_due_def Let_def fetch_D resolve_D ref_example
      next_due_body_end_daily
    by (simp add: dt_defs)
  have inside: "two_weeks_inside (at 738890 23 0)"
    by (simp add: two_weeks_inside_def at_def MAXORD_def)
  from next_due_after_reference [OF nl, of example_parser "at 738895 8 0" SHIFT_DEFS
      "Some ''2024-01-05 23:00:00''" "Some 1" "Some ''D''"] ev wf_D inside ref_example
  show ?thesis by simp
qed


subsection \<open>The daily scan and its fallback\<close>

lemma scan_days_None:
  assumes "\<forall>i\<in>set offs. (weekday ref + i) mod 7 \<notin> set ds"
  shows "scan_days ref ds t offs = Inr None"
  using assms by (induction offs) (simp_all add: Let_def)

lemma scan_days_None_D:
  assumes "scan_days ref ds t offs = Inr None" "\<forall>i\<in>set offs. 1 \<le> i"
  shows "\<forall>i\<in>set offs. (weekday ref + i) mod 7 \<notin> set ds"
  using assms
proof (induction offs)
  case Nil
  then show ?case by simp
next
  case (Cons i offs)
  show ?case
  proof (cases "(weekday ref + i) mod 7 \<in> set ds")
    case True
    with Cons.prems have False
      by (auto simp: Let_def bind_err_def add_days_def replace_hm_def dt_less_def
          split: if_splits)
    then show ?thesis ..
  next
    case False
    with Cons show ?thesis by (simp add: Let_def)
  qed
qed

lemma scan_days_None_any_time:
  assumes "scan_days ref ds t [1, 2, 3, 4, 5, 6, 7] = Inr None"
  shows "scan_days ref ds t' [1, 2, 3, 4, 5, 6, 7] = Inr None"
proof -
  have "\<forall>i\<in>set [1, 2, 3, 4, 5, 6, 7]. (weekday ref + i) mod 7 \<notin> set ds"
    by (rule scan_days_None_D [OF assms]) simp
  then show ?thesis by (rule scan_days_None)
qed

lemma shifted_to_explicit:
  "shifted_to ref k t =
     (if 1 \<le> dt_ord ref + k \<and> dt_ord ref + k \<le> MAXORD
      then Inr (replace_hm (ref\<lparr>dt_ord := dt_ord ref + k\<rparr>) t) else Inl OverflowError)"
  by (simp add: shifted_to_def add_days_def bind_err_def)

lemma scan_days_finds:
  assumes "\<exists>i\<in>set offs. (weekday ref + i) mod 7 \<in> set ds" "\<forall>i\<in>set offs. 1 \<le> i \<and> i \<le> 7"
    "1 \<le> dt_ord ref" "dt_ord ref + 7 \<le> MAXORD"
  shows "\<exists>c. scan_days ref ds t offs = Inr (Some c)"
  using assms
proof (induction offs)
  case Nil
  then show ?case by simp
next
  case (Cons i offs)
  show ?case
  proof (cases "(weekday ref + i) mod 7 \<in> set ds")
    case True
    with Cons.prems show ?thesis
      by (simp add: Let_def bind_err_def add_days_def replace_hm_def dt_less_def)
  next
    case False
    with Cons show ?thesis by (simp add: Let_def)
  qed
qed

lemma weekday_reached:
  assumes "0 \<le> d" "d < 7"
  shows "\<exists>i\<in>set [1, 2, 3, 4, 5, 6, 7]. (w + i) mod 7 = (d::int)"
proof -
  define i where "i = (d - w - 1) mod 7 + 1"
  have r: "1 \<le> i" "i \<le> 7" by (simp_all add: i_def)
  have "(w + i) mod 7 = ((w + 1) + (d - w - 1) mod 7) mod 7"
    by (simp add: i_def ac_simps)
  also have "\<dots> = ((w + 1) + (d - w - 1)) mod 7"
    by (rule mod_add_right_eq)
  also have "\<dots> = d mod 7" by simp
  finally have e: "(w + i) mod 7 = d" using assms by simp
  from r have "i = 1 \<or> i = 2 \<or> i = 3 \<or> i = 4 \<or> i = 5 \<or> i = 6 \<or> i = 7" by arith
  then have "i \<in> set [1, 2, 3, 4, 5, 6, 7]" by simp
  with e show ?thesis by blast
qed
lemma scan_days_real_days:
  assumes "d \<in> set ds" "0 \<le> d" "d < 7" "1 \<le> dt_ord ref" "dt_ord ref + 7 \<le> MAXORD"
  shows "\<exists>c. scan_days ref ds t [1, 2, 3, 4, 5, 6, 7] = Inr (Some c)"
proof (rule scan_days_finds [OF _ _ assms(4,5)])
  from weekday_reached [OF assms(2,3), of "weekday ref"] assms(1)
  show "\<exists>i\<in>set [1, 2, 3, 4, 5, 6, 7]. (weekday ref + i) mod 7 \<in> set ds" by auto
  show "\<forall>i\<in>set [1, 2, 3, 4, 5, 6, 7]. 1 \<le> i \<and> i \<le> (7::int)" by simp
qed

text \<open>
  Claim C7. In the \<^verbatim>\<open>end_shift_daily\<close> branch, when the scan over the offsets 1..7
  returns no candidate, the result is the reference moved by
  \<open>(d0 - refWeekday) mod 7\<close> days, or by 7 days when that is zero, at \<open>endTime\<close>
  (OverflowError when that day is beyond 9999-12-31), where \<open>d0\<close> is the first element
  of \<^verbatim>\<open>shift_days\<close> in its stored order. The fallback of \<^verbatim>\<open>start_shift_daily\<close> uses
  \<^verbatim>\<open>first_day\<close>, the minimum, instead. (By \<open>scan_days_real_days\<close> the scan
  succeeds whenever \<^verbatim>\<open>shift_days\<close> holds a weekday index 0..6, as every list built
  from \<^verbatim>\<open>WEEK_IDX\<close> does.)
\<close>

theorem end_shift_daily_fallback_first_element:
  assumes "scan_days ref (d0 # rest) et [1, 2, 3, 4, 5, 6, 7] = Inr None"
  shows "next_due_body P now lc idays (Some ''end_shift_daily'') ref (d0 # rest)
           first_day last_day st et =
         (let k = (if (d0 - weekday ref) mod 7 = 0 then 7 else (d0 - weekday ref) mod 7)
          in if 1 \<le> dt_ord ref + k \<and> dt_ord ref + k \<le> MAXORD
             then Inr (replace_hm (ref\<lparr>dt_ord := dt_ord ref + k\<rparr>) et)
             else Inl OverflowError) \<and>
         next_due_body P now lc idays (Some ''start_shift_daily'') ref (d0 # rest)
           first_day last_day st et =
         (let k = (if (first_day - weekday ref) mod 7 = 0 then 7
                   else (first_day - weekday ref) mod 7)
          in if 1 \<le> dt_ord ref + k \<and> dt_ord ref + k \<le> MAXORD
             then Inr (replace_hm (ref\<lparr>dt_ord := dt_ord ref + k\<rparr>) st)
             else Inl OverflowError)"
  unfolding next_due_body_end_daily next_due_body_start_daily assms
    scan_days_None_any_time [OF assms, of st] shifted_to_explicit Let_def
  by (simp add: bind_err_def)

theorem end_shift_daily_fallback_first_element_witness:
  "scan_days (at 738890 23 0) [9, 8] (hm 5 0) [1, 2, 3, 4, 5, 6, 7] = Inr None \<and>
   next_due_body example_parser (at 738890 23 0) None None (Some ''end_shift_daily'')
     (at 738890 23 0) [9, 8] 8 9 (hm 17 0) (hm 5 0) = Inr (at 738895 5 0) \<and>
   next_due_body example_parser (at 738890 23 0) None None (Some ''start_shift_daily'')
     (at 738890 23 0) [9, 8] 8 9 (hm 17 0) (hm 5 0) = Inr (at 738894 17 0)"
proof -
  have s: "scan_days (at 738890 23 0) [9, 8] (hm 5 0) [1, 2, 3, 4, 5, 6, 7] = Inr None"
    by (simp add: Let_def weekday_def at_def)
  from end_shift_daily_fallback_first_element [OF s, of example_parser "at 738890 23 0"
      None None 8 9 "hm 17 0"] s
  show ?thesis by (simp add: dt_defs Let_def)
qed

section \<open>StatusResolver\<close>

lemma diff_micros_to_micros: "diff_micros a b = to_micros a - to_micros b"
  by (simp add: diff_micros_def to_micros_def algebra_simps)

lemma time_less_secs:
  assumes "valid_dt a" "valid_dt b" "dt_ord a = dt_ord b"
  shows "time_less (time_of a) (time_of b) \<longleftrightarrow> to_micros a < to_micros b"
proof -
  from assms(1,2) have b:
    "0 \<le> dt_hour a" "dt_hour a < 24" "0 \<le> dt_minute a" "dt_minute a < 60"
    "0 \<le> dt_second a" "dt_second a < 60" "0 \<le> dt_micro a" "dt_micro a < 1000000"
    "0 \<le> dt_hour b" "dt_hour b < 24" "0 \<le> dt_minute b" "dt_minute b < 60"
    "0 \<le> dt_second b" "dt_second b < 60" "0 \<le> dt_micro b" "dt_micro b < 1000000"
    by (simp_all add: valid_dt_def)
  show ?thesis
    unfolding time_less_def time_of_def to_micros_def secs_of_def assms(3)
    using b by (simp) linarith
qed

lemma dt_less_to_micros:
  assumes "valid_dt a" "valid_dt b"
  shows "dt_less a b \<longleftrightarrow> to_micros a < to_micros b"
proof (cases "dt_ord a = dt_ord b")
  case True
  with time_less_secs [OF assms True] show ?thesis by (simp add: dt_less_def)
next
  case False
  from assms have b:
    "0 \<le> dt_hour a" "dt_hour a < 24" "0 \<le> dt_minute a" "dt_minute a < 60"
    "0 \<le> dt_second a" "dt_second a < 60" "0 \<le> dt_micro a" "dt_micro a < 1000000"
    "0 \<le> dt_hour b" "dt_hour b < 24" "0 \<le> dt_minute b" "dt_minute b < 60"
    "0 \<le> dt_second b" "dt_second b < 60" "0 \<le> dt_micro b" "dt_micro b < 1000000"
    by (simp_all add: valid_dt_def)
  from False have "dt_less a b \<longleftrightarrow> dt_ord a < dt_ord b" by (simp add: dt_less_def)
  also have "\<dots> \<longleftrightarrow> to_micros a < to_micros b"
  proof (cases "dt_ord a < dt_ord b")
    case True
    then have "dt_ord a + 1 \<le> dt_ord b" by simp
    with b have "to_micros a < to_micros b"
      unfolding to_micros_def secs_of_def by (simp add: algebra_simps)
    with True show ?thesis by simp
  next
    case lt: False
    with False have "dt_ord b + 1 \<le> dt_ord a" by simp
    with b have "\<not> to_micros a < to_micros b"
      unfolding to_micros_def secs_of_def by (simp add: algebra_simps)
    with lt show ?thesis by simp
  qed
  finally show ?thesis .
qed

lemma diff_days_nonneg:
  assumes "to_micros now \<le> to_micros next_due"
  shows "diff_days next_due now = (to_micros next_due - to_micros now) sdiv 86400000000"
proof -
  from assms have "0 \<le> to_micros next_due - to_micros now" by simp
  then show ?thesis
    by (simp add: diff_days_def diff_micros_to_micros signed_divide_int_def sgn_if)
qed

lemma standard_status_spec:
  assumes "valid_dt now" "valid_dt next_due"
  shows "standard_status now next_due =
           (if to_micros now > to_micros next_due then ''overdue''
            else if (to_micros next_due - to_micros now) sdiv 86400000000 < 1 then ''due''
            else ''upcoming'')"
proof (cases "to_micros now > to_micros next_due")
  case True
  with dt_less_to_micros [OF assms(2,1)] show ?thesis
    by (simp add: standard_status_def)
next
  case False
  then have le: "to_micros now \<le> to_micros next_due" by simp
  from False dt_less_to_micros [OF assms(2,1)] have "\<not> dt_less next_due now" by simp
  with False show ?thesis
    unfolding standard_status_def diff_days_nonneg [OF le] by simp
qed

lemma standard_status_10h:
  assumes "valid_dt now" "valid_dt next_due" "to_micros next_due = to_micros now + 36000000000"
  shows "standard_status now next_due = ''due''"
  unfolding standard_status_spec [OF assms(1,2)] assms(3)
  by (simp add: signed_divide_int_def)

lemma standard_status_1min:
  assumes "valid_dt now" "valid_dt next_due" "to_micros next_due = to_micros now - 60000000"
  shows "standard_status now next_due = ''overdue''"
  unfolding standard_status_spec [OF assms(1,2)] assms(3)
  by simp

lemma standard_status_3d:
  assumes "valid_dt now" "valid_dt next_due" "to_micros next_due = to_micros now + 259200000000"
  shows "standard_status now next_due = ''upcoming''"
  unfolding standard_status_spec [OF assms(1,2)] assms(3)
  by (simp add: signed_divide_int_def)

lemma standard_status_same: "standard_status now now = ''due''"
proof -
  have "\<not> dt_less now now" by (simp add: dt_less_def time_less_def)
  moreover have "diff_days now now = 0" by (simp add: diff_days_def diff_micros_def)
  ultimately show ?thesis by (simp add: standard_status_def)
qed

lemma get_task_status_not_completed:
  assumes "completion_override P now2 db lc itype shift = Inr False"
  shows "get_task_status P now now2 db next_due lc itype shift =
           Inr (standard_status now next_due)"
  using assms by (simp add: get_task_status_def bind_err_def)

lemma completion_override_no_record:
  "completion_override P now2 db None itype shift = Inr False"
  by (simp add: completion_override_def truthy_def)

lemma valid_at:
  assumes "1 \<le> n" "n \<le> 3652059" "0 \<le> h" "h < 24" "0 \<le> m" "m < 60"
  shows "valid_dt (at n h m)"
  using assms by (simp add: valid_dt_def at_def MAXORD_def)

text \<open>
  Claim C6. Whenever the completion check does not return \<^verbatim>\<open>"completed"\<close>, the status of
  valid instants is \<^verbatim>\<open>"overdue"\<close> iff \<open>now > nextDue\<close>; otherwise \<^verbatim>\<open>"due"\<close> iff the
  whole-day count of \<open>nextDue - now\<close>, truncated toward zero, is less than 1; otherwise
  \<^verbatim>\<open>"upcoming"\<close>. In particular \<open>nextDue = now + 10 hours\<close> gives due,
  \<open>nextDue = now - 1 minute\<close> gives overdue and \<open>nextDue = now + 3 days\<close> gives
  upcoming.
\<close>

theorem status_classification:
  assumes "valid_dt now" "valid_dt next_due"
    and "completion_override P now2 db last_completed interval_type assigned_shift = Inr False"
  shows "get_task_status P now now2 db next_due last_completed interval_type assigned_shift =
           Inr (if to_micros now > to_micros next_due then ''overdue''
                else if (to_micros next_due - to_micros now) sdiv 86400000000 < 1 then ''due''
                else ''upcoming'') \<and>
         (to_micros next_due = to_micros now + 36000000000 \<longrightarrow>
            get_task_status P now now2 db next_due last_completed interval_type assigned_shift
              = Inr ''due'') \<and>
         (to_micros next_due = to_micros now - 60000000 \<longrightarrow>
            get_task_status P now now2 db next_due last_completed interval_type assigned_shift
              = Inr ''overdue'') \<and>
         (to_micros next_due = to_micros now + 259200000000 \<longrightarrow>
            get_task_status P now now2 db next_due last_completed interval_type assigned_shift
              = Inr ''upcoming'')"
proof (intro conjI impI)
  show "get_task_status P now now2 db next_due last_completed interval_type assigned_shift =
           Inr (if to_micros now > to_micros next_due then ''overdue''
                else if (to_micros next_due - to_micros now) sdiv 86400000000 < 1 then ''due''
                else ''upcoming'')"
    unfolding get_task_status_not_completed [OF assms(3)]
      standard_status_spec [OF assms(1,2)] ..
next
  assume "to_micros next_due = to_micros now + 36000000000"
  from standard_status_10h [OF assms(1,2) this]
  show "get_task_status P now now2 db next_due last_completed interval_type assigned_shift
          = Inr ''due''"
    unfolding get_task_status_not_completed [OF assms(3)] by (rule arg_cong)
next
  assume "to_micros next_due = to_micros now - 60000000"
  from standard_status_1min [OF assms(1,2) this]
  show "get_task_status P now now2 db next_due last_completed interval_type assigned_shift
          = Inr ''overdue''"
    unfolding get_task_status_not_completed [OF assms(3)] by (rule arg_cong)
next
  assume "to_micros next_due = to_micros now + 259200000000"
  from standard_status_3d [OF assms(1,2) this]
  show "get_task_status P now now2 db next_due last_completed interval_type assigned_shift
          = Inr ''upcoming''"
    unfolding get_task_status_not_completed [OF assms(3)] by (rule arg_cong)
qed

theorem status_classification_witness:
  "get_task_status example_parser (at 738895 8 0) (at 738895 8 0) SHIFT_DEFS (at 738895 18 0)
     None (Some ''start_shift_daily'') (Some ''A'') = Inr ''due'' \<and>
   get_task_status example_parser (at 738895 8 0) (at 738895 8 0) SHIFT_DEFS (at 738895 7 59)
     None (Some ''start_shift_daily'') (Some ''A'') = Inr ''overdue'' \<and>
   get_task_status example_parser (at 738895 8 0) (at 738895 8 0) SHIFT_DEFS (at 738898 8 0)
     None (Some ''start_shift_daily'') (Some ''A'') = Inr ''upcoming''"
proof -
  have v: "valid_dt (at 738895 8 0)" "valid_dt (at 738895 18 0)" "valid_dt (at 738895 7 59)"
    "valid_dt (at 738898 8 0)"
    by (simp_all add: valid_at)
  have m: "to_micros (at 738895 18 0) = to_micros (at 738895 8 0) + 36000000000"
    "to_micros (at 738895 7 59) = to_micros (at 738895 8 0) - 60000000"
    "to_micros (at 738898 8 0) = to_micros (at 738895 8 0) + 259200000000"
    by (simp_all add: to_micros_def secs_of_def at_def)
  note n = completion_override_no_record
    [of example_parser "at 738895 8 0" SHIFT_DEFS "Some ''start_shift_daily''" "Some ''A''"]
  from status_classification [OF v(1) v(2) n] m(1)
    status_classification [OF v(1) v(3) n] m(2)
    status_classification [OF v(1) v(4) n] m(3)
  show ?thesis by blast
qed

text \<open>
  Claim C10. When the completion check does not return \<^verbatim>\<open>"completed"\<close> and \<open>now\<close> equals
  \<open>nextDue\<close> exactly, the status is \<^verbatim>\<open>"due"\<close>: the comparison \<open>now > nextDue\<close> is
  strict and the whole-day count of the difference is 0.
\<close>

theorem due_at_the_due_instant:
  assumes "completion_override P now2 db last_completed interval_type assigned_shift = Inr False"
  shows "get_task_status P now now2 db now last_completed interval_type assigned_shift
           = Inr ''due'' \<and>
         \<not> dt_less now now \<and> diff_days now now = 0"
  unfolding get_task_status_not_completed [OF assms] standard_status_same
  by (simp add: dt_less_def time_less_def diff_days_def diff_micros_def)

theorem due_at_the_due_instant_witness:
  "get_task_status example_parser (at 738895 8 0) (at 738895 8 1) SHIFT_DEFS (at 738895 8 0)
     None (Some ''end_shift_weekly'') (Some ''B'') = Inr ''due''"
  using due_at_the_due_instant [OF completion_override_no_record
      [of example_parser "at 738895 8 1" SHIFT_DEFS "Some ''end_shift_weekly''" "Some ''B''"],
      of "at 738895 8 0"]
  by (rule conjunct1)


subsection \<open>The completion check\<close>

lemma contains_daily:
  "str_contains ''daily'' ''start_shift_daily''" "str_contains ''daily'' ''end_shift_daily''"
  by simp_all

lemma contains_weekly:
  "\<not> str_contains ''daily'' ''start_shift_weekly''" "str_contains ''weekly'' ''start_shift_weekly''"
  "\<not> str_contains ''daily'' ''end_shift_weekly''" "str_contains ''weekly'' ''end_shift_weekly''"
  by simp_all

lemma is_completed_resolved:
  assumes "fetch_shift db shift = Some row" "row_shift_days row = Inr ds"
    "parse_hm P (sc_start_time row) = Inr st" "parse_hm P (sc_end_time row) = Inr et"
  shows "is_completed_in_current_shift_period P now2 db completed itype shift =
           (if str_contains ''daily'' itype
            then is_same_shift_occurrence completed now2 ds st et
            else if str_contains ''weekly'' itype
            then is_same_shift_week completed now2 ds st et
            else Inr False)"
  using assms by (simp add: is_completed_in_current_shift_period_def bind_err_def)

lemma completion_override_parsed:
  assumes "s \<noteq> []" "itype \<noteq> []" "nm \<noteq> []" "parse_completed P s = Some completed"
  shows "completion_override P now2 db (Some s) (Some itype) (Some nm) =
           is_completed_in_current_shift_period P now2 db completed itype (Some nm)"
  using assms by (simp add: completion_override_def truthy_def)

lemma get_task_status_completed:
  assumes "completion_override P now2 db lc itype shift = Inr True"
  shows "get_task_status P now now2 db next_due lc itype shift = Inr ''completed''"
  using assms by (simp add: get_task_status_def bind_err_def)

lemma parse_hm_D:
  "parse_hm example_parser (sc_start_time (SHIFT_DEFS ! 3)) = Inr (hm 17 0)"
  "parse_hm example_parser (sc_end_time (SHIFT_DEFS ! 3)) = Inr (hm 5 0)"
  by (simp_all add: SHIFT_DEFS_def example_parser_def table_parser_def parse_hm_def
      time_of_def at_def hm_def)

lemma parse_example:
  "parse_completed example_parser ''2024-01-05 23:00:00'' = Some (at 738890 23 0)"
  by (simp add: parse_completed_def example_parser_def table_parser_def)

text \<open>
  The completion check comes first: when it answers true, the due date is not looked at.
\<close>

lemma completion_check_decides:
  assumes "s \<noteq> []" "nm \<noteq> []" "parse_completed P s = Some completed"
    and "fetch_shift db (Some nm) = Some row" "row_shift_days row = Inr ds"
    and "parse_hm P (sc_start_time row) = Inr st" "parse_hm P (sc_end_time row) = Inr et"
  shows "((itype = ''start_shift_daily'' \<or> itype = ''end_shift_daily'') \<and>
          is_same_shift_occurrence completed now2 ds st et = Inr True \<longrightarrow>
            get_task_status P now now2 db next_due (Some s) (Some itype) (Some nm)
              = Inr ''completed'') \<and>
         ((itype = ''start_shift_weekly'' \<or> itype = ''end_shift_weekly'') \<and>
          is_same_shift_week completed now2 ds st et = Inr True \<longrightarrow>
            get_task_status P now now2 db next_due (Some s) (Some itype) (Some nm)
              = Inr ''completed'')"
proof (intro conjI impI; elim conjE disjE)
  note r = is_completed_resolved [OF assms(4-7)]
  {
    assume i: "itype = ''start_shift_daily''"
      and m: "is_same_shift_occurrence completed now2 ds st et = Inr True"
    have "itype \<noteq> []" unfolding i by simp
    note c = completion_override_parsed [OF assms(1) this assms(2,3), of now2 db]
    have "completion_override P now2 db (Some s) (Some itype) (Some nm) = Inr True"
      unfolding c r using m by (simp add: i)
    then show "get_task_status P now now2 db next_due (Some s) (Some itype) (Some nm)
                 = Inr ''completed''"
      by (rule get_task_status_completed)
  next
    assume i: "itype = ''end_shift_daily''"
      and m: "is_same_shift_occurrence completed now2 ds st et = Inr True"
    have "itype \<noteq> []" unfolding i by simp
    note c = completion_override_parsed [OF assms(1) this assms(2,3), of now2 db]
    have "completion_override P now2 db (Some s) (Some itype) (Some nm) = Inr True"
      unfolding c r using m by (simp add: i)
    then show "get_task_status P now now2 db next_due (Some s) (Some itype) (Some nm)
                 = Inr ''completed''"
      by (rule get_task_status_completed)
  next
    assume i: "itype = ''start_shift_weekly''"
      and m: "is_same_shift_week completed now2 ds st et = Inr True"
    have "itype \<noteq> []" unfolding i by simp
    note c = completion_override_parsed [OF assms(1) this assms(2,3), of now2 db]
    have "completion_override P now2 db (Some s) (Some itype) (Some nm) = Inr True"
      unfolding c r using m by (simp add: i)
    then show "get_task_status P now now2 db next_due (Some s) (Some itype) (Some nm)
                 = Inr ''completed''"
      by (rule get_task_status_completed)
  next
    assume i: "itype = ''end_shift_weekly''"
      and m: "is_same_shift_week completed now2 ds st et = Inr True"
    have "itype \<noteq> []" unfolding i by simp
    note c = completion_override_parsed [OF assms(1) this assms(2,3), of now2 db]
    have "completion_override P now2 db (Some s) (Some itype) (Some nm) = Inr True"
      unfolding c r using m by (simp add: i)
    then show "get_task_status P now now2 db next_due (Some s) (Some itype) (Some nm)
                 = Inr ''completed''"
      by (rule get_task_status_completed)
  }
qed

subsection \<open>Evaluation on the default shift B\<close>

lemma fetch_B:
  "fetch_shift SHIFT_DEFS (Some ''B'') = Some (SHIFT_DEFS ! 1)"
  by (simp add: fetch_shift_def SHIFT_DEFS_def)

lemma row_days_B: "row_shift_days (SHIFT_DEFS ! 1) = Inr [0, 1, 2, 3]"
  by (simp add: SHIFT_DEFS_def row_shift_days_def WEEK_IDX_def bind_err_def)

lemma parse_hm_B:
  "parse_hm example_parser (sc_start_time (SHIFT_DEFS ! 1)) = Inr (hm 16 30)"
  "parse_hm example_parser (sc_end_time (SHIFT_DEFS ! 1)) = Inr (hm 3 30)"
  by (simp_all add: SHIFT_DEFS_def example_parser_def table_parser_def parse_hm_def
      time_of_def at_def hm_def)

lemma resolve_B:
  "resolve_shift example_parser (Some (SHIFT_DEFS ! 1)) =
     Inr ([0, 1, 2, 3], 0, 3, hm 16 30, hm 3 30)"
  unfolding resolve_shift_def option.case row_days_B parse_hm_B
  by (simp add: py_min_def py_max_def bind_err_def)

lemma parse_thursday:
  "parse_completed example_parser ''2024-01-11 23:00:00'' = Some (at 738896 23 0)"
  by (simp add: parse_completed_def example_parser_def table_parser_def)

lemma ref_thursday:
  "reference_time_of example_parser now (Some ''2024-01-11 23:00:00'') = at 738896 23 0"
  by (simp add: reference_time_of_def truthy_def parse_thursday)

text \<open>
  Claim C2. A completion inside the current occurrence of the assigned shift should make
  \<^verbatim>\<open>get_task_status\<close> return \<^verbatim>\<open>"completed"\<close>. On the default shift B (Monday to
  Thursday, 16:30-03:30) a task completed on Thursday at 23:00 and looked at on Friday at
  02:00 is inside Thursday's occurrence, which runs until Friday 03:30, at both instants.
  The completion check answers false all the same, because
  \<^verbatim>\<open>get_shift_date_for_time\<close> finds that Friday is not an active day, and the status is
  \<^verbatim>\<open>"upcoming"\<close> for the due date that \<^verbatim>\<open>calculate_next_due\<close> computes.
\<close>

theorem completion_inside_occurrence_not_completed:
  "weekday (at 738896 16 30) = 3 \<and>
   dt_le (at 738896 16 30) (at 738896 23 0) \<and> dt_less (at 738896 23 0) (at 738897 3 30) \<and>
   dt_le (at 738896 16 30) (at 738897 2 0) \<and> dt_less (at 738897 2 0) (at 738897 3 30) \<and>
   in_occurrence_window [0, 1, 2, 3] (hm 16 30) (hm 3 30) (at 738896 23 0) \<and>
   in_occurrence_window [0, 1, 2, 3] (hm 16 30) (hm 3 30) (at 738897 2 0) \<and>
   is_same_shift_occurrence (at 738896 23 0) (at 738897 2 0) [0, 1, 2, 3] (hm 16 30) (hm 3 30)
     = Inr False \<and>
   calculate_next_due example_parser (at 738897 2 0) SHIFT_DEFS (Some ''2024-01-11 23:00:00'')
     (Some 1) (Some ''start_shift_daily'') (Some ''B'') = Inr (at 738900 16 30) \<and>
   get_task_status example_parser (at 738897 2 0) (at 738897 2 0) SHIFT_DEFS (at 738900 16 30)
     (Some ''2024-01-11 23:00:00'') (Some ''start_shift_daily'') (Some ''B'') = Inr ''upcoming''"
proof -
  have w: "weekday (at 738896 16 30) = 3"
    by (simp add: weekday_def at_def)
  have i: "dt_le (at 738896 16 30) (at 738896 23 0)" "dt_less (at 738896 23 0) (at 738897 3 30)"
    "dt_le (at 738896 16 30) (at 738897 2 0)" "dt_less (at 738897 2 0) (at 738897 3 30)"
    by (simp_all add: dt_defs)
  have o: "in_occurrence_window [0, 1, 2, 3] (hm 16 30) (hm 3 30) (at 738896 23 0)"
    "in_occurrence_window [0, 1, 2, 3] (hm 16 30) (hm 3 30) (at 738897 2 0)"
    by (simp_all add: in_occurrence_window_def dt_defs)
  have m: "is_same_shift_occurrence (at 738896 23 0) (at 738897 2 0) [0, 1, 2, 3]
             (hm 16 30) (hm 3 30) = Inr False"
    by (simp add: is_same_shift_occurrence_def get_shift_date_for_time_def dt_defs)
  have n: "calculate_next_due example_parser (at 738897 2 0) SHIFT_DEFS
     (Some ''2024-01-11 23:00:00'') (Some 1) (Some ''start_shift_daily'') (Some ''B'')
     = Inr (at 738900 16 30)"
    unfolding calculate_next_due_def Let_def fetch_B resolve_B ref_thursday
      next_due_body_start_daily
    by (simp add: dt_defs)
  have s: "''2024-01-11 23:00:00'' \<noteq> []" "''start_shift_daily'' \<noteq> []" "''B'' \<noteq> []"
    by simp_all
  have c: "completion_override example_parser (at 738897 2 0) SHIFT_DEFS
             (Some ''2024-01-11 23:00:00'') (Some ''start_shift_daily'') (Some ''B'')
           = Inr False"
    unfolding completion_override_parsed [OF s parse_thursday]
      is_completed_resolved [OF fetch_B row_days_B parse_hm_B]
    using m by simp
  have d: "standard_status (at 738897 2 0) (at 738900 16 30) = ''upcoming''"
    by (simp add: standard_status_def diff_days_def diff_micros_def secs_of_def dt_defs)
  have g: "get_task_status example_parser (at 738897 2 0) (at 738897 2 0) SHIFT_DEFS
     (at 738900 16 30) (Some ''2024-01-11 23:00:00'') (Some ''start_shift_daily'') (Some ''B'')
     = Inr ''upcoming''"
    unfolding get_task_status_not_completed [OF c] d ..
  from w i o m n g show ?thesis by (intro conjI)
qed

section \<open>Totality\<close>

lemma is_same_shift_occurrence_total:
  assumes "2 \<le> dt_ord c" "dt_ord c \<le> MAXORD" "2 \<le> dt_ord r" "dt_ord r \<le> MAXORD"
  shows "\<exists>b. is_same_shift_occurrence c r ds st et = Inr b"
  using assms
  by (simp add: is_same_shift_occurrence_def get_shift_date_for_time_spec bind_err_def)

lemma is_same_shift_week_total:
  assumes "ds \<noteq> []" "14 \<le> dt_ord c" "dt_ord c \<le> MAXORD" "14 \<le> dt_ord r" "dt_ord r \<le> MAXORD"
  shows "\<exists>b. is_same_shift_week c r ds st et = Inr b"
  using assms
  by (simp add: is_same_shift_week_def get_shift_week_start_spec bind_err_def)

lemma matchers_total:
  assumes "ds \<noteq> []" "two_weeks_inside c" "two_weeks_inside r"
  shows "\<exists>b. is_same_shift_occurrence c r ds st et = Inr b"
    and "\<exists>b. is_same_shift_week c r ds st et = Inr b"
proof -
  from assms(2,3) have b: "14 \<le> dt_ord c" "dt_ord c \<le> MAXORD" "14 \<le> dt_ord r" "dt_ord r \<le> MAXORD"
    by (simp_all add: two_weeks_inside_def)
  then have "2 \<le> dt_ord c" "2 \<le> dt_ord r" by simp_all
  with b show "\<exists>b. is_same_shift_occurrence c r ds st et = Inr b"
    by (intro is_same_shift_occurrence_total)
  from assms(1) b show "\<exists>b. is_same_shift_week c r ds st et = Inr b"
    by (intro is_same_shift_week_total)
qed

lemma is_completed_total:
  assumes "config_ok P db shift" "two_weeks_inside c" "two_weeks_inside now2"
  shows "\<exists>b. is_completed_in_current_shift_period P now2 db c itype shift = Inr b"
proof (cases "fetch_shift db shift")
  case None
  then show ?thesis by (simp add: is_completed_in_current_shift_period_def)
next
  case (Some row)
  with assms(1) have wf: "row_well_formed P row" by (simp add: config_ok_def)
  from row_shift_days_total [OF wf] obtain ds where ds: "row_shift_days row = Inr ds" "ds \<noteq> []"
    by blast
  from wf parse_hm_total obtain st where st: "parse_hm P (sc_start_time row) = Inr st"
    by (auto simp: row_well_formed_def)
  from wf parse_hm_total obtain et where et: "parse_hm P (sc_end_time row) = Inr et"
    by (auto simp: row_well_formed_def)
  from matchers_total [OF ds(2) assms(2,3), of st et] show ?thesis
    unfolding is_completed_resolved [OF Some ds(1) st et] by auto
qed

lemma reference_time_of_parsed:
  assumes "truthy lc" "parse_completed P (the lc) = Some d"
  shows "reference_time_of P now lc = d"
  using assms by (simp add: reference_time_of_def)

lemma completion_override_total:
  assumes "config_ok P db shift" "two_weeks_inside now2"
    "two_weeks_inside (reference_time_of P now2 lc)"
  shows "\<exists>b. completion_override P now2 db lc itype shift = Inr b"
proof (cases "truthy lc \<and> truthy itype \<and> truthy shift")
  case False
  then show ?thesis by (auto simp: completion_override_def)
next
  case True
  show ?thesis
  proof (cases "parse_completed P (the lc)")
    case None
    with True have "completion_override P now2 db lc itype shift = Inr False"
      by (simp add: completion_override_def)
    then show ?thesis ..
  next
    case (Some d)
    with True assms(3) have "two_weeks_inside d"
      by (simp add: reference_time_of_parsed)
    from is_completed_total [OF assms(1) this assms(2), of "the itype"] True Some
    show ?thesis by (simp add: completion_override_def)
  qed
qed

lemma get_task_status_total:
  assumes "config_ok P db shift" "two_weeks_inside now2"
    "two_weeks_inside (reference_time_of P now2 lc)"
  shows "\<exists>s. get_task_status P now now2 db next_due lc itype shift = Inr s"
proof -
  from completion_override_total [OF assms] obtain b
    where "completion_override P now2 db lc itype shift = Inr b" by blast
  then show ?thesis by (simp add: get_task_status_def bind_err_def)
qed

lemma next_due_body_legacy:
  assumes "\<not> non_legacy itype"
  shows "next_due_body P now lc idays itype ref ds first_day last_day st et =
           (if truthy lc
            then bind_err (timedelta_days (or_one idays))
                   (\<lambda>n. add_days (case parse_completed P (the lc) of Some d \<Rightarrow> d | None \<Rightarrow> now) n)
            else Inr now)"
proof -
  from assms have "itype \<noteq> Some ''start_shift_daily''" "itype \<noteq> Some ''start_shift_weekly''"
    "itype \<noteq> Some ''end_shift_daily''" "itype \<noteq> Some ''end_shift_weekly''"
    unfolding non_legacy_def by simp_all
  then show ?thesis
    unfolding next_due_body_def Let_def by simp
qed

lemma legacy_total:
  assumes "\<not> non_legacy itype" "two_weeks_inside (reference_time_of P now lc)"
    "legacy_ok (reference_time_of P now lc) idays"
  shows "\<exists>d. next_due_body P now lc idays itype (reference_time_of P now lc) ds
                first_day last_day st et = Inr d"
proof (cases "truthy lc")
  case False
  then show ?thesis unfolding next_due_body_legacy [OF assms(1)] by simp
next
  case True
  then have r: "(case parse_completed P (the lc) of Some d \<Rightarrow> d | None \<Rightarrow> now)
                 = reference_time_of P now lc"
    by (simp add: reference_time_of_def)
  from assms(2,3) have "\<bar>or_one idays\<bar> \<le> 999999999"
    unfolding two_weeks_inside_def legacy_ok_def MAXORD_def by linarith
  with assms(3) True show ?thesis
    unfolding next_due_body_legacy [OF assms(1)] r
    by (simp add: timedelta_days_def bind_err_def add_days_def legacy_ok_def)
qed

lemma calculate_next_due_total_any:
  assumes "config_ok P db shift" "two_weeks_inside (reference_time_of P now lc)"
    "non_legacy itype \<or> legacy_ok (reference_time_of P now lc) idays"
  shows "\<exists>d. calculate_next_due P now db lc idays itype shift = Inr d"
proof (cases "non_legacy itype")
  case True
  with assms(1,2) show ?thesis by (rule calculate_next_due_total)
next
  case False
  with assms(3) have l: "legacy_ok (reference_time_of P now lc) idays" by simp
  from resolve_shift_total [OF assms(1)] obtain ds f l' st et
    where r: "resolve_shift P (fetch_shift db shift) = Inr (ds, f, l', st, et)" by blast
  from legacy_total [OF False assms(2) l, of ds f l' st et] r show ?thesis
    by (simp add: calculate_next_due_def Let_def bind_err_def)
qed

lemma reference_time_unparseable:
  assumes "parse_completed P x = None"
  shows "reference_time_of P now (Some x) = now"
  using assms by (simp add: reference_time_of_def truthy_def)

lemma calculate_next_due_virtual_shift:
  assumes "fetch_shift db shift = None"
  shows "calculate_next_due P now db lc idays itype shift =
           next_due_body P now lc idays itype (reference_time_of P now lc)
             [0, 1, 2, 3, 4, 5, 6] 0 6 midnight midnight"
  using assms by (simp add: calculate_next_due_def resolve_shift_def bind_err_def Let_def)

lemma fetch_unknown: "fetch_shift SHIFT_DEFS (Some ''Z'') = None"
  by (simp add: fetch_shift_def SHIFT_DEFS_def)

lemma parse_garbage: "parse_completed example_parser ''garbage'' = None"
  by (simp add: parse_completed_def example_parser_def table_parser_def)

text \<open>
  Claim C8, as stated, fails: a shift row that cannot be read makes the scheduler raise.
  With \<^verbatim>\<open>active_days = ''\<close> the lookup \<^verbatim>\<open>WEEK_IDX['']\<close> raises KeyError in
  \<^verbatim>\<open>calculate_next_due\<close> and, through the completion check, in \<^verbatim>\<open>get_task_status\<close>;
  with the end time \<^verbatim>\<open>'24:00'\<close> \<^verbatim>\<open>strptime\<close> raises ValueError. Neither is caught
  inside the scheduler.
\<close>

theorem malformed_shift_config_raises_counterexample:
  "calculate_next_due example_parser (at 738895 8 0) [no_days_row] None (Some 1)
     (Some ''start_shift_daily'') (Some ''X'') = Inl KeyError \<and>
   get_task_status example_parser (at 738895 8 0) (at 738895 8 0) [no_days_row] (at 738896 8 0)
     (Some ''2024-01-05 23:00:00'') (Some ''start_shift_daily'') (Some ''X'') = Inl KeyError \<and>
   calculate_next_due example_parser (at 738895 8 0) [bad_time_row] None (Some 1)
     (Some ''start_shift_daily'') (Some ''Y'') = Inl ValueError"
proof -
  have fx: "fetch_shift [no_days_row] (Some ''X'') = Some no_days_row"
    by (simp add: fetch_shift_def no_days_row_def)
  have fy: "fetch_shift [bad_time_row] (Some ''Y'') = Some bad_time_row"
    by (simp add: fetch_shift_def bad_time_row_def)
  have dx: "row_shift_days no_days_row = Inl KeyError"
    by (simp add: row_shift_days_def no_days_row_def WEEK_IDX_def)
  have ry: "resolve_shift example_parser (Some bad_time_row) = Inl ValueError"
    by (simp add: resolve_shift_def row_shift_days_def bad_time_row_def WEEK_IDX_def
        py_min_def py_max_def parse_hm_def example_parser_def table_parser_def bind_err_def)
  have a: "calculate_next_due example_parser (at 738895 8 0) [no_days_row] None (Some 1)
     (Some ''start_shift_daily'') (Some ''X'') = Inl KeyError"
    unfolding calculate_next_due_def Let_def fx
    by (simp add: resolve_shift_def dx bind_err_def)
  have c: "completion_override example_parser (at 738895 8 0) [no_days_row]
             (Some ''2024-01-05 23:00:00'') (Some ''start_shift_daily'') (Some ''X'')
           = Inl KeyError"
    unfolding completion_override_def
    by (simp add: truthy_def parse_example is_completed_in_current_shift_period_def fx dx
        bind_err_def)
  have b: "get_task_status example_parser (at 738895 8 0) (at 738895 8 0) [no_days_row]
     (at 738896 8 0) (Some ''2024-01-05 23:00:00'') (Some ''start_shift_daily'') (Some ''X'')
     = Inl KeyError"
    unfolding get_task_status_def c by (simp add: bind_err_def)
  have d: "calculate_next_due example_parser (at 738895 8 0) [bad_time_row] None (Some 1)
     (Some ''start_shift_daily'') (Some ''Y'') = Inl ValueError"
    unfolding calculate_next_due_def Let_def fy ry by (simp add: bind_err_def)
  from a b d show ?thesis by (intro conjI)
qed

text \<open>
  Claim C8, amended. When the row of the assigned shift, if there is one, is well formed,
  the instants involved are two weeks inside the range of \<^verbatim>\<open>datetime\<close> and, for a
  legacy interval type, adding \<^verbatim>\<open>interval_days or 1\<close> days stays in that range, then
  \<^verbatim>\<open>calculate_next_due\<close> and \<^verbatim>\<open>get_task_status\<close> return a value; the two matchers
  return a value for every non-empty list of active days. A \<^verbatim>\<open>last_completed\<close> that is
  present but does not parse is replaced by \<open>now\<close> as the reference time, and an
  \<^verbatim>\<open>assigned_shift\<close> without an active row is replaced by the shift of all seven
  weekdays with start and end at 00:00.
\<close>

theorem scheduler_total_on_well_formed_config:
  assumes "config_ok P db assigned_shift"
    and "two_weeks_inside (reference_time_of P now last_completed)"
    and "two_weeks_inside now2" "two_weeks_inside (reference_time_of P now2 last_completed)"
    and "non_legacy interval_type \<or>
         legacy_ok (reference_time_of P now last_completed) interval_days"
  shows "(\<exists>d. calculate_next_due P now db last_completed interval_days interval_type
                 assigned_shift = Inr d) \<and>
         (\<exists>s. get_task_status P now now2 db next_due last_completed interval_type
                 assigned_shift = Inr s) \<and>
         (\<forall>x. parse_completed P x = None \<longrightarrow> reference_time_of P now (Some x) = now) \<and>
         (fetch_shift db assigned_shift = None \<longrightarrow>
            calculate_next_due P now db last_completed interval_days interval_type
              assigned_shift =
            next_due_body P now last_completed interval_days interval_type
              (reference_time_of P now last_completed)
              [0, 1, 2, 3, 4, 5, 6] 0 6 midnight midnight) \<and>
         (\<forall>c r ds st et. ds \<noteq> [] \<and> two_weeks_inside c \<and> two_weeks_inside r \<longrightarrow>
            (\<exists>b. is_same_shift_occurrence c r ds st et = Inr b) \<and>
            (\<exists>b. is_same_shift_week c r ds st et = Inr b))"
proof (intro conjI allI impI)
  show "\<exists>d. calculate_next_due P now db last_completed interval_days interval_type
                 assigned_shift = Inr d"
    by (rule calculate_next_due_total_any [OF assms(1,2,5)])
  show "\<exists>s. get_task_status P now now2 db next_due last_completed interval_type
                 assigned_shift = Inr s"
    by (rule get_task_status_total [OF assms(1,3,4)])
next
  fix x assume "parse_completed P x = None"
  then show "reference_time_of P now (Some x) = now"
    by (rule reference_time_unparseable)
next
  assume "fetch_shift db assigned_shift = None"
  then show "calculate_next_due P now db last_completed interval_days interval_type
              assigned_shift =
            next_due_body P now last_completed interval_days interval_type
              (reference_time_of P now last_completed)
              [0, 1, 2, 3, 4, 5, 6] 0 6 midnight midnight"
    by (rule calculate_next_due_virtual_shift)
next
  fix c r :: datetime and ds :: "int list" and st et :: pytime
  assume a: "ds \<noteq> [] \<and> two_weeks_inside c \<and> two_weeks_inside r"
  then show "\<exists>b. is_same_shift_occurrence c r ds st et = Inr b"
    by (intro matchers_total(1)) simp_all
  from a show "\<exists>b. is_same_shift_week c r ds st et = Inr b"
    by (intro matchers_total(2)) simp_all
qed

theorem scheduler_total_on_well_formed_config_witness:
  "config_ok example_parser SHIFT_DEFS (Some ''Z'') \<and>
   reference_time_of example_parser (at 738895 8 0) (Some ''garbage'') = at 738895 8 0 \<and>
   calculate_next_due example_parser (at 738895 8 0) SHIFT_DEFS (Some ''garbage'') (Some 7)
     (Some ''start_shift_weekly'') (Some ''Z'') = Inr (at 738900 0 0) \<and>
   (\<exists>s. get_task_status example_parser (at 738895 8 0) (at 738895 8 0) SHIFT_DEFS
          (at 738900 0 0) (Some ''garbage'') (Some ''start_shift_weekly'') (Some ''Z'') = Inr s)"
proof -
  have c: "config_ok example_parser SHIFT_DEFS (Some ''Z'')"
    by (simp add: config_ok_def fetch_unknown)
  have r: "reference_time_of example_parser (at 738895 8 0) (Some ''garbage'') = at 738895 8 0"
    by (rule reference_time_unparseable [OF parse_garbage])
  have t: "two_weeks_inside (at 738895 8 0)"
    by (simp add: two_weeks_inside_def at_def MAXORD_def)
  have n: "non_legacy (Some ''start_shift_weekly'')"
    unfolding non_legacy_def by simp
  note th = scheduler_total_on_well_formed_config
    [of example_parser SHIFT_DEFS "Some ''Z''" "at 738895 8 0" "Some ''garbage''"
       "at 738895 8 0" "Some ''start_shift_weekly''" "Some 7" "at 738900 0 0",
     unfolded r, OF c t t t disjI1 [OF n]]
  from th have s: "\<exists>s. get_task_status example_parser (at 738895 8 0) (at 738895 8 0)
      SHIFT_DEFS (at 738900 0 0) (Some ''garbage'') (Some ''start_shift_weekly'') (Some ''Z'')
      = Inr s"
    by (elim conjE)
  from th fetch_unknown have "calculate_next_due example_parser (at 738895 8 0) SHIFT_DEFS
      (Some ''garbage'') (Some 7) (Some ''start_shift_weekly'') (Some ''Z'') =
      next_due_body example_parser (at 738895 8 0) (Some ''garbage'') (Some 7)
        (Some ''start_shift_weekly'') (at 738895 8 0)
        [0, 1, 2, 3, 4, 5, 6] 0 6 midnight midnight"
    by simp
  also have "\<dots> = Inr (at 738900 0 0)"
    unfolding next_due_body_start_weekly
    by (simp add: shifted_to_def midnight_def dt_defs)
  finally show ?thesis using c r s by (intro conjI)
qed


section \<open>ShiftCalendar\<close>

lemma find_active_shift_find:
  assumes "\<forall>r\<in>set rows. sc_active_days r \<noteq> None"
  shows "find_active_shift py_int day mins rows =
           Inr (map_option sc_shift_name (find (shift_covers py_int day mins) rows))"
  using assms
proof (induction rows)
  case Nil
  then show ?case by simp
next
  case (Cons row rows)
  then obtain days where d: "sc_active_days row = Some days" by auto
  from Cons have ih: "find_active_shift py_int day mins rows =
           Inr (map_option sc_shift_name (find (shift_covers py_int day mins) rows))" by simp
  note c = shift_covers_def [of py_int day mins row]
  show ?case
  proof (cases "shift_covers py_int day mins row")
    case True
    then have "find_active_shift py_int day mins (row # rows) = Inr (Some (sc_shift_name row))"
      unfolding c by (auto simp: d split: option.splits if_splits)
    with True show ?thesis by simp
  next
    case False
    then have "find_active_shift py_int day mins (row # rows) =
                 find_active_shift py_int day mins rows"
      unfolding c by (auto simp: d split: option.splits if_splits)
    with False ih show ?thesis by simp
  qed
qed

lemma find_active_shift_null:
  assumes "sc_active_days row = None"
  shows "find_active_shift py_int day mins (row # rows) = Inl AttributeError"
  using assms by simp

lemma active_shifts_sorted:
  "sorted (map sc_display_order (active_shifts db))"
  "set (active_shifts db) = {r \<in> set db. sc_active r = 1}"
  by (simp_all add: active_shifts_def)

lemma day_abbr_Wed: "day_abbr (at 738895 h m) = ''Wed''"
  by (simp add: day_abbr_def weekday_def at_def)

lemma example_minutes:
  "minutes_of example_int ''04:30'' = Some 270" "minutes_of example_int ''15:30'' = Some 930"
  "minutes_of example_int ''16:30'' = Some 990" "minutes_of example_int ''03:30'' = Some 210"
  "minutes_of example_int ''05:00'' = Some 300" "minutes_of example_int ''17:00'' = Some 1020"
  "minutes_of example_int ''08:00'' = Some 480"
  by (simp_all add: minutes_of_def example_int_def)

lemma active_default: "active_shifts SHIFT_DEFS = SHIFT_DEFS"
  by (simp add: active_shifts_def SHIFT_DEFS_def)

lemma default_rows_named:
  "\<forall>r\<in>set (active_shifts SHIFT_DEFS). sc_active_days r \<noteq> None \<and> sc_shift_name r \<noteq> []"
  unfolding active_default by (simp add: SHIFT_DEFS_def)

lemma find_default_1700:
  "find (shift_covers example_int ''Wed'' 1020) SHIFT_DEFS = Some (SHIFT_DEFS ! 1)"
  by (simp add: SHIFT_DEFS_def shift_covers_def example_minutes)

lemma find_default_0400:
  "find (shift_covers example_int ''Wed'' 240) SHIFT_DEFS = None"
  by (simp add: SHIFT_DEFS_def shift_covers_def example_minutes)

lemma time_of_day_minutes_readable:
  assumes "time_of_day_minutes py_int s = Some v"
  shows "minutes_of py_int s = Some v"
  using assms
  by (auto simp: time_of_day_minutes_def minutes_of_def split: list.splits option.splits
      if_splits)

lemma shift_covers_agrees:
  assumes "time_of_day_minutes py_int (sc_start_time row) = Some s"
    "time_of_day_minutes py_int (sc_end_time row) = Some e" "s \<noteq> e"
  shows "shift_covers py_int day mins row = shift_covers_spec py_int day mins row"
  using assms time_of_day_minutes_readable [OF assms(1)]
    time_of_day_minutes_readable [OF assms(2)]
  by (auto simp: shift_covers_def shift_covers_spec_def split: option.splits)

lemma day_abbr_Mon: "day_abbr (at 738893 h m) = ''Mon''"
  by (simp add: day_abbr_def weekday_def at_def)

lemma example_minutes_2400:
  "minutes_of example_int ''24:00'' = Some 1440"
  "time_of_day_minutes example_int ''24:00'' = None"
  "time_of_day_minutes example_int ''04:30'' = Some 270"
  "time_of_day_minutes example_int ''08:00'' = Some 480"
  "time_of_day_minutes example_int ''17:00'' = Some 1020"
  "time_of_day_minutes example_int ''15:30'' = Some 930"
  "time_of_day_minutes example_int ''16:30'' = Some 990"
  "time_of_day_minutes example_int ''03:30'' = Some 210"
  by (simp_all add: minutes_of_def time_of_day_minutes_def example_int_def)

text \<open>
  Claim C9, as stated, fails in three places. First, a malformed time string is not
  always skipped: the end time \<^verbatim>\<open>'24:00'\<close> is no time of day, but its two parts are
  integers, so the source reads it as minute 1440 and returns the shift \<^verbatim>\<open>'Y'\<close> on a
  Monday at 10:00 where the claim expects the default with a note. Second, a matching
  shift whose name is the empty string is not returned: the source tests the
  truthiness of the name and answers \<^verbatim>\<open>'A'\<close> with the note that no shift matched.
  Third, a row with NULL \<^verbatim>\<open>active_days\<close> is not skipped: \<^verbatim>\<open>split\<close> raises outside the
  inner \<^verbatim>\<open>try\<close>, the handler's catch-all answers \<^verbatim>\<open>'A'\<close> with status \<^verbatim>\<open>'error'\<close>, and
  the shift B, which matches on a Monday at 17:00, is never reached.
\<close>

theorem unreadable_rows_counterexample:
  "time_of_day_minutes example_int (sc_end_time bad_time_row) = None \<and>
   find (shift_covers_spec example_int (day_abbr (at 738893 10 0)) 600)
     (active_shifts [bad_time_row]) = None \<and>
   get_active_shift example_int (at 738893 10 0) [bad_time_row] =
     \<lparr>r_status = ''success'', r_shift = ''Y'', r_note = None, r_error = None\<rparr> \<and>
   find (shift_covers_spec example_int (day_abbr (at 738893 10 0)) 600)
     (active_shifts [unnamed_row]) = Some unnamed_row \<and>
   get_active_shift example_int (at 738893 10 0) [unnamed_row] =
     \<lparr>r_status = ''success'', r_shift = ''A'',
      r_note = Some ''No shift matched current time'', r_error = None\<rparr> \<and>
   find (shift_covers_spec example_int (day_abbr (at 738893 17 0)) 1020)
     (active_shifts (null_days_row # SHIFT_DEFS)) = Some (SHIFT_DEFS ! 1) \<and>
   get_active_shift example_int (at 738893 17 0) (null_days_row # SHIFT_DEFS) =
     \<lparr>r_status = ''error'', r_shift = ''A'', r_note = None, r_error = Some AttributeError\<rparr>"
proof -
  have m: "dt_hour (at 738893 10 0) * 60 + dt_minute (at 738893 10 0) = 600"
    "dt_hour (at 738893 17 0) * 60 + dt_minute (at 738893 17 0) = 1020"
    by (simp_all add: at_def)
  \<comment> \<open>the end time 24:00\<close>
  have y0: "time_of_day_minutes example_int (sc_end_time bad_time_row) = None"
    by (simp add: bad_time_row_def example_minutes_2400)
  have ya: "active_shifts [bad_time_row] = [bad_time_row]"
    by (simp add: active_shifts_def bad_time_row_def)
  have ys: "find (shift_covers_spec example_int ''Mon'' 600) [bad_time_row] = None"
    by (simp add: shift_covers_spec_def bad_time_row_def example_minutes_2400)
  have yf: "find_active_shift example_int ''Mon'' 600 [bad_time_row] = Inr (Some ''Y'')"
    by (simp add: bad_time_row_def example_minutes example_minutes_2400)
  have yg: "get_active_shift example_int (at 738893 10 0) [bad_time_row] =
     \<lparr>r_status = ''success'', r_shift = ''Y'', r_note = None, r_error = None\<rparr>"
    unfolding get_active_shift_def Let_def ya m day_abbr_Mon yf by (simp add: truthy_def)
  \<comment> \<open>the empty name\<close>
  have ua: "active_shifts [unnamed_row] = [unnamed_row]"
    by (simp add: active_shifts_def unnamed_row_def)
  have us: "find (shift_covers_spec example_int ''Mon'' 600) [unnamed_row] = Some unnamed_row"
    by (simp add: shift_covers_spec_def unnamed_row_def example_minutes_2400)
  have uf: "find_active_shift example_int ''Mon'' 600 [unnamed_row] = Inr (Some [])"
    by (simp add: unnamed_row_def example_minutes)
  have ug: "get_active_shift example_int (at 738893 10 0) [unnamed_row] =
     \<lparr>r_status = ''success'', r_shift = ''A'',
      r_note = Some ''No shift matched current time'', r_error = None\<rparr>"
    unfolding get_active_shift_def Let_def ua m day_abbr_Mon uf by (simp add: truthy_def)
  \<comment> \<open>the NULL list of days\<close>
  have na: "active_shifts (null_days_row # SHIFT_DEFS) = null_days_row # SHIFT_DEFS"
    by (simp add: active_shifts_def null_days_row_def SHIFT_DEFS_def)
  have ns: "find (shift_covers_spec example_int ''Mon'' 1020) (null_days_row # SHIFT_DEFS)
              = Some (SHIFT_DEFS ! 1)"
    by (simp add: shift_covers_spec_def null_days_row_def SHIFT_DEFS_def example_minutes_2400)
  have nf: "find_active_shift example_int ''Mon'' 1020 (null_days_row # SHIFT_DEFS)
              = Inl AttributeError"
    by (simp add: null_days_row_def)
  have ng: "get_active_shift example_int (at 738893 17 0) (null_days_row # SHIFT_DEFS) =
     \<lparr>r_status = ''error'', r_shift = ''A'', r_note = None, r_error = Some AttributeError\<rparr>"
    unfolding get_active_shift_def Let_def na m day_abbr_Mon nf by simp
  from y0 ys yg us ug ns ng show ?thesis
    unfolding ya ua na day_abbr_Mon by (intro conjI)
qed

text \<open>
  Claim C9, amended. Over the active rows in display order, with no NULL
  \<^verbatim>\<open>active_days\<close> and no empty shift name among them, \<^verbatim>\<open>get_active_shift\<close> skips a
  row when the current day is not in its active-day list or when its start or end time
  does not split at the colon into two parts that \<^verbatim>\<open>int\<close> accepts, and returns the name
  of the first remaining row that satisfies \<open>start \<le> now < end\<close> when \<open>start < end\<close>,
  or \<open>now \<ge> start\<close> or \<open>now < end\<close> otherwise. For a row whose two times are times of
  day and differ this is the rule of the claim: \<open>start \<le> now < end\<close> for a
  non-overnight shift, \<open>now \<ge> start\<close> or \<open>now < end\<close> for an overnight one. When there
  is no active row, or no row matches, the answer is \<^verbatim>\<open>'A'\<close> with the note
  \<^verbatim>\<open>'No shifts configured'\<close> or \<^verbatim>\<open>'No shift matched current time'\<close>.
\<close>

theorem active_shift_first_match:
  assumes "\<forall>r\<in>set (active_shifts db). sc_active_days r \<noteq> None \<and> sc_shift_name r \<noteq> []"
  shows "get_active_shift py_int now db =
           (case find (shift_covers py_int (day_abbr now) (dt_hour now * 60 + dt_minute now))
                   (active_shifts db) of
              Some r \<Rightarrow> \<lparr>r_status = ''success'', r_shift = sc_shift_name r,
                          r_note = None, r_error = None\<rparr>
            | None \<Rightarrow> \<lparr>r_status = ''success'', r_shift = ''A'',
                        r_note = Some (if active_shifts db = [] then ''No shifts configured''
                                       else ''No shift matched current time''),
                        r_error = None\<rparr>) \<and>
         sorted (map sc_display_order (active_shifts db)) \<and>
         set (active_shifts db) = {r \<in> set db. sc_active r = 1} \<and>
         (\<forall>r s e. time_of_day_minutes py_int (sc_start_time r) = Some s \<and>
                  time_of_day_minutes py_int (sc_end_time r) = Some e \<and> s \<noteq> e \<longrightarrow>
            shift_covers py_int (day_abbr now) (dt_hour now * 60 + dt_minute now) r =
            shift_covers_spec py_int (day_abbr now) (dt_hour now * 60 + dt_minute now) r)"
proof -
  let ?day = "day_abbr now" and ?mins = "dt_hour now * 60 + dt_minute now"
  from assms have nn: "\<forall>r\<in>set (active_shifts db). sc_active_days r \<noteq> None" by simp
  note f = find_active_shift_find [OF nn, of py_int ?day ?mins]
  have "get_active_shift py_int now db =
           (case find (shift_covers py_int ?day ?mins) (active_shifts db) of
              Some r \<Rightarrow> \<lparr>r_status = ''success'', r_shift = sc_shift_name r,
                          r_note = None, r_error = None\<rparr>
            | None \<Rightarrow> \<lparr>r_status = ''success'', r_shift = ''A'',
                        r_note = Some (if active_shifts db = [] then ''No shifts configured''
                                       else ''No shift matched current time''),
                        r_error = None\<rparr>)"
  proof (cases "find (shift_covers py_int ?day ?mins) (active_shifts db)")
    case None
    then show ?thesis
      unfolding get_active_shift_def Let_def f by (simp add: truthy_def)
  next
    case (Some r)
    then have "r \<in> set (active_shifts db)" by (auto simp: find_Some_iff)
    with assms have "sc_shift_name r \<noteq> []" "active_shifts db \<noteq> []" by auto
    with Some show ?thesis
      unfolding get_active_shift_def Let_def f by (simp add: truthy_def)
  qed
  moreover have "\<forall>r s e. time_of_day_minutes py_int (sc_start_time r) = Some s \<and>
                  time_of_day_minutes py_int (sc_end_time r) = Some e \<and> s \<noteq> e \<longrightarrow>
            shift_covers py_int ?day ?mins r = shift_covers_spec py_int ?day ?mins r"
  proof (intro allI impI)
    fix r :: shift_row and s e :: int
    assume "time_of_day_minutes py_int (sc_start_time r) = Some s \<and>
            time_of_day_minutes py_int (sc_end_time r) = Some e \<and> s \<noteq> e"
    then show "shift_covers py_int ?day ?mins r = shift_covers_spec py_int ?day ?mins r"
      by (intro shift_covers_agrees [of py_int r s e]) simp_all
  qed
  ultimately show ?thesis
    using active_shifts_sorted [of db] by (intro conjI) simp_all
qed

theorem active_shift_first_match_witness:
  "get_active_shift example_int (at 738895 17 0) SHIFT_DEFS =
     \<lparr>r_status = ''success'', r_shift = ''B'', r_note = None, r_error = None\<rparr> \<and>
   get_active_shift example_int (at 738895 4 0) SHIFT_DEFS =
     \<lparr>r_status = ''success'', r_shift = ''A'',
      r_note = Some ''No shift matched current time'', r_error = None\<rparr>"
proof -
  have n: "SHIFT_DEFS \<noteq> []" "sc_shift_name (SHIFT_DEFS ! 1) = ''B''"
    by (simp_all add: SHIFT_DEFS_def)
  have m: "dt_hour (at 738895 17 0) * 60 + dt_minute (at 738895 17 0) = 1020"
    "dt_hour (at 738895 4 0) * 60 + dt_minute (at 738895 4 0) = 240"
    by (simp_all add: at_def)
  have a: "get_active_shift example_int (at 738895 17 0) SHIFT_DEFS =
     \<lparr>r_status = ''success'', r_shift = ''B'', r_note = None, r_error = None\<rparr>"
    by (rule active_shift_first_match [OF default_rows_named, of example_int "at 738895 17 0",
          THEN conjunct1, unfolded active_default day_abbr_Wed m find_default_1700
            option.case n(2)])
  have b: "get_active_shift example_int (at 738895 4 0) SHIFT_DEFS =
     \<lparr>r_status = ''success'', r_shift = ''A'',
      r_note = Some ''No shift matched current time'', r_error = None\<rparr>"
    by (rule active_shift_first_match [OF default_rows_named, of example_int "at 738895 4 0",
          THEN conjunct1, unfolded active_default day_abbr_Wed m find_default_0400
            option.case if_not_P [OF n(1)]])
  from a b show ?thesis ..
qed


end
